theory Spec2Isabelle
  imports Main
begin

section \<open>Values of the host language\<close>

text \<open>
  The policy engine of \<^verbatim>\<open>lib/policy.js\<close> is embedded function by function.
  Millisecond counts are JavaScript numbers holding integers; they are modelled as
  mathematical integers. An argument that may be omitted (\<^verbatim>\<open>undefined\<close>) or
  \<^verbatim>\<open>null\<close> is an \<open>option\<close>, and the truthiness tests of the source
  (\<^verbatim>\<open>x || y\<close>, \<^verbatim>\<open>if (x)\<close>, \<^verbatim>\<open>!x\<close>) are written out.
\<close>

text \<open>A number that may be \<^verbatim>\<open>NaN\<close> (the ttl of a cached entry after a subtraction).\<close>

datatype jsnum = Num int | NaN

fun jsnum_minus :: "jsnum \<Rightarrow> int option \<Rightarrow> jsnum" where
  "jsnum_minus (Num a) (Some b) = Num (a - b)"
| "jsnum_minus _ _ = NaN"

fun jsnum_positive :: "jsnum \<Rightarrow> bool" where
  "jsnum_positive (Num a) = (0 < a)"
| "jsnum_positive NaN = False"

text \<open>Truthiness of an optional number: \<^verbatim>\<open>undefined\<close>, \<^verbatim>\<open>null\<close> and \<open>0\<close> are falsy.\<close>

fun truthy_num :: "int option \<Rightarrow> bool" where
  "truthy_num None = False"
| "truthy_num (Some n) = (n \<noteq> 0)"

fun truthy_bool :: "bool option \<Rightarrow> bool" where
  "truthy_bool None = False"
| "truthy_bool (Some b) = b"

text \<open>\<^verbatim>\<open>staleIn\<close> is a number of milliseconds or a function of \<open>(stored, ttl)\<close>.\<close>

datatype staleIn_t = StaleMs int | StaleFn "int \<Rightarrow> jsnum \<Rightarrow> int"

text \<open>\<^verbatim>\<open>generateTimeout\<close> is a number of milliseconds or \<^verbatim>\<open>false\<close>.\<close>

datatype generateTimeout_t = TimeoutMs int | TimeoutFalse

fun truthy_generateTimeout :: "generateTimeout_t option \<Rightarrow> bool" where
  "truthy_generateTimeout (Some (TimeoutMs n)) = (n \<noteq> 0)"
| "truthy_generateTimeout _ = False"

section \<open>The rule\<close>

text \<open>
  The compiled rule object. A field the compiler leaves out is \<open>None\<close>. The
  producer \<^verbatim>\<open>generateFunc\<close> is opaque (type \<open>'g\<close>).
\<close>

record 'g rule =
  expiresIn :: "int option"
  expiresAt :: "(int \<times> int) option"
  generateFunc :: "'g option"
  generateTimeout :: "generateTimeout_t option"
  staleIn :: "staleIn_t option"
  staleTimeout :: "int option"
  dropOnError :: "bool option"
  pendingGenerateTimeout :: "int option"
  generateOnReadError :: "bool option"
  generateIgnoreWriteError :: "bool option"

definition empty_rule :: "'g rule" where
  "empty_rule = \<lparr> expiresIn = None, expiresAt = None, generateFunc = None,
     generateTimeout = None, staleIn = None, staleTimeout = None, dropOnError = None,
     pendingGenerateTimeout = None, generateOnReadError = None,
     generateIgnoreWriteError = None \<rparr>"

section \<open>TTL calculator\<close>

definition day :: int where
  "day = 24 * 60 * 60 * 1000"

text \<open>
  \<^verbatim>\<open>internals.Policy.ttl(rule, created, now)\<close>. Two things come from the host
  and are parameters: \<open>clock\<close>, the value \<^verbatim>\<open>Date.now()\<close> returns, and
  \<open>localAt created h m\<close>, the epoch milliseconds of
  \<^verbatim>\<open>d = new Date(created); d.setHours(h); d.setMinutes(m); d.setSeconds(0);
  d.setMilliseconds(0); d.getTime()\<close> in the time zone of the host.
\<close>

definition Policy_ttl ::
  "(int \<Rightarrow> int \<Rightarrow> int \<Rightarrow> int) \<Rightarrow> int \<Rightarrow> 'g rule \<Rightarrow> int option \<Rightarrow> int option \<Rightarrow> int" where
  "Policy_ttl localAt clock r created0 now0 =
    (let now = (if truthy_num now0 then the now0 else clock);
         created = (if truthy_num created0 then the created0 else now);
         age = now - created
     in if age < 0 then 0
        else if truthy_num (expiresIn r) then max (the (expiresIn r) - age) 0
        else (case expiresAt r of
                Some (h, m) \<Rightarrow>
                  if age > day then 0
                  else (let expires0 = localAt created h m;
                            expires = (if expires0 \<le> created then expires0 + day else expires0)
                        in if now \<ge> expires then 0 else expires - now)
              | None \<Rightarrow> 0))"

text \<open>The host's calendar when its time zone is UTC: days are exactly 86 400 000 ms.\<close>

definition utcAt :: "int \<Rightarrow> int \<Rightarrow> int \<Rightarrow> int" where
  "utcAt created h m = (created div day) * day + h * 3600000 + m * 60000"

section \<open>Rule compiler\<close>

text \<open>
  The options object handed to \<^verbatim>\<open>internals.Policy.compile\<close>. Each key of the
  schema is a field of the type the schema demands, \<open>None\<close> when the key is absent;
  values of another type are outside the model. \<open>o_otherKeys\<close> says that the object
  has further own keys (the ignored keys \<^verbatim>\<open>privacy\<close>, \<^verbatim>\<open>cache\<close>,
  \<^verbatim>\<open>segment\<close>, \<^verbatim>\<open>shared\<close>), which only matters for the emptiness test.
\<close>

record 'g options =
  o_expiresIn :: "int option"
  o_expiresAt :: "string option"
  o_staleIn :: "staleIn_t option"
  o_staleTimeout :: "int option"
  o_generateFunc :: "'g option"
  o_generateTimeout :: "generateTimeout_t option"
  o_generateOnReadError :: "bool option"
  o_generateIgnoreWriteError :: "bool option"
  o_dropOnError :: "bool option"
  o_pendingGenerateTimeout :: "int option"
  o_otherKeys :: bool

definition empty_options :: "'g options" where
  "empty_options = \<lparr> o_expiresIn = None, o_expiresAt = None, o_staleIn = None,
     o_staleTimeout = None, o_generateFunc = None, o_generateTimeout = None,
     o_generateOnReadError = None, o_generateIgnoreWriteError = None, o_dropOnError = None,
     o_pendingGenerateTimeout = None, o_otherKeys = False \<rparr>"

text \<open>\<^verbatim>\<open>Object.keys(options).length\<close> is zero.\<close>

definition no_keys :: "'g options \<Rightarrow> bool" where
  "no_keys opts \<longleftrightarrow>
     o_expiresIn opts = None \<and> o_expiresAt opts = None \<and> o_staleIn opts = None \<and>
     o_staleTimeout opts = None \<and> o_generateFunc opts = None \<and>
     o_generateTimeout opts = None \<and> o_generateOnReadError opts = None \<and>
     o_generateIgnoreWriteError opts = None \<and> o_dropOnError opts = None \<and>
     o_pendingGenerateTimeout opts = None \<and> \<not> o_otherKeys opts"

subsection \<open>The pattern of \<^verbatim>\<open>expiresAt\<close>\<close>

text \<open>The class \<^verbatim>\<open>\d\<close>: the ten ASCII digits.\<close>

definition is_digit :: "char \<Rightarrow> bool" where
  "is_digit c \<longleftrightarrow> 48 \<le> (of_char c :: nat) \<and> (of_char c :: nat) \<le> 57"

text \<open>
  \<^verbatim>\<open>/^(\d\d?):(\d\d)$/.exec(s)\<close>: the two groups, or \<open>None\<close> for
  \<^verbatim>\<open>null\<close>. The schema's pattern \<^verbatim>\<open>/^\d\d?\:\d\d$/\<close> accepts the same strings.
\<close>

fun exec_expiresAt :: "string \<Rightarrow> (string \<times> string) option" where
  "exec_expiresAt [a, s, c, d] =
     (if is_digit a \<and> s = CHR '':'' \<and> is_digit c \<and> is_digit d
      then Some ([a], [c, d]) else None)"
| "exec_expiresAt [a, b, s, c, d] =
     (if is_digit a \<and> is_digit b \<and> s = CHR '':'' \<and> is_digit c \<and> is_digit d
      then Some ([a, b], [c, d]) else None)"
| "exec_expiresAt _ = None"

text \<open>\<^verbatim>\<open>parseInt(s, 10)\<close> on a string of digits.\<close>

definition parseInt :: "string \<Rightarrow> int" where
  "parseInt s = foldl (\<lambda>n c. 10 * n + (int (of_char c) - 48)) 0 s"

subsection \<open>Validation and compilation\<close>

datatype compile_error = ValidationError | AssertionError string | CompileTypeError

text \<open>\<^verbatim>\<open>Joi.number().integer().min(1)\<close> on an optional key.\<close>

fun min1 :: "int option \<Rightarrow> bool" where
  "min1 None = True"
| "min1 (Some n) = (1 \<le> n)"

text \<open>
  \<^verbatim>\<open>internals.schema\<close>: the constraints of the keys, then the dependencies
  \<^verbatim>\<open>without\<close>, \<^verbatim>\<open>with\<close> and \<^verbatim>\<open>and\<close>, which look at the presence of keys.
\<close>

definition schema :: "'g options \<Rightarrow> bool" where
  "schema opts \<longleftrightarrow>
     min1 (o_expiresIn opts) \<and>
     (case o_expiresAt opts of None \<Rightarrow> True | Some s \<Rightarrow> exec_expiresAt s \<noteq> None) \<and>
     (case o_staleIn opts of
        Some (StaleMs n) \<Rightarrow> 1 \<le> n \<and> n \<le> 86400000 - 1
      | _ \<Rightarrow> True) \<and>
     min1 (o_staleTimeout opts) \<and>
     (case o_generateTimeout opts of Some (TimeoutMs n) \<Rightarrow> 1 \<le> n | _ \<Rightarrow> True) \<and>
     min1 (o_pendingGenerateTimeout opts) \<and>
     \<not> (o_expiresIn opts \<noteq> None \<and> o_expiresAt opts \<noteq> None) \<and>
     (o_staleIn opts \<noteq> None \<longrightarrow> o_generateFunc opts \<noteq> None) \<and>
     (o_generateOnReadError opts \<noteq> None \<longrightarrow> o_generateFunc opts \<noteq> None) \<and>
     (o_generateIgnoreWriteError opts \<noteq> None \<longrightarrow> o_generateFunc opts \<noteq> None) \<and>
     (o_dropOnError opts \<noteq> None \<longrightarrow> o_generateFunc opts \<noteq> None) \<and>
     ((o_generateFunc opts \<noteq> None) = (o_generateTimeout opts \<noteq> None)) \<and>
     ((o_staleIn opts \<noteq> None) = (o_staleTimeout opts \<noteq> None))"

text \<open>Truthiness of \<^verbatim>\<open>options.staleIn\<close>: a function is truthy, a number unless zero.\<close>

fun truthy_staleIn :: "staleIn_t option \<Rightarrow> bool" where
  "truthy_staleIn None = False"
| "truthy_staleIn (Some (StaleMs n)) = (n \<noteq> 0)"
| "truthy_staleIn (Some (StaleFn f)) = True"

fun is_function :: "staleIn_t option \<Rightarrow> bool" where
  "is_function (Some (StaleFn f)) = True"
| "is_function _ = False"

text \<open>
  The seven \<^verbatim>\<open>Hoek.assert\<close> lines after the schema, in the order of the source;
  the result is the message of the first that fails. The two type assertions hold by
  the types of the fields. A comparison with \<^verbatim>\<open>undefined\<close> is false.
\<close>

definition assertions :: "'g options \<Rightarrow> bool \<Rightarrow> string option" where
  "assertions opts serverSide =
    (let hasExpiresIn = (o_expiresIn opts \<noteq> None);
         e = (case o_expiresIn opts of Some n \<Rightarrow> n | None \<Rightarrow> 0);
         st = (case o_staleTimeout opts of Some n \<Rightarrow> n | None \<Rightarrow> 0)
     in if \<not> (\<not> hasExpiresIn \<or> \<not> truthy_staleIn (o_staleIn opts) \<or> is_function (o_staleIn opts) \<or>
               (case o_staleIn opts of Some (StaleMs si) \<Rightarrow> si < e | _ \<Rightarrow> False))
        then Some ''staleIn must be less than expiresIn''
        else if \<not> (\<not> truthy_staleIn (o_staleIn opts) \<or> serverSide)
        then Some ''Cannot use stale options without server-side caching''
        else if \<not> (\<not> truthy_num (o_staleTimeout opts) \<or> \<not> hasExpiresIn \<or> st < e)
        then Some ''staleTimeout must be less than expiresIn''
        else if \<not> (\<not> truthy_num (o_staleTimeout opts) \<or> \<not> hasExpiresIn \<or>
                     is_function (o_staleIn opts) \<or>
                     (case o_staleIn opts of Some (StaleMs si) \<Rightarrow> st < e - si | _ \<Rightarrow> False))
        then Some ''staleTimeout must be less than the delta between expiresIn and staleIn''
        else if \<not> (\<not> truthy_num (o_staleTimeout opts) \<or>
                     \<not> truthy_num (o_pendingGenerateTimeout opts) \<or>
                     st < (case o_pendingGenerateTimeout opts of Some n \<Rightarrow> n | None \<Rightarrow> 0))
        then Some ''pendingGenerateTimeout must be greater than staleTimeout if specified''
        else None)"

text \<open>The part of \<^verbatim>\<open>compile\<close> after the expiration: the generate and stale keys.\<close>

definition compile_generate :: "'g options \<Rightarrow> 'g rule \<Rightarrow> 'g rule" where
  "compile_generate opts r0 =
    (let r1 = (if o_generateFunc opts \<noteq> None
               then (let r = r0\<lparr> generateFunc := o_generateFunc opts,
                                  generateTimeout := o_generateTimeout opts \<rparr>;
                         r' = (if truthy_staleIn (o_staleIn opts)
                               then r\<lparr> staleIn := o_staleIn opts,
                                       staleTimeout := o_staleTimeout opts \<rparr>
                               else r)
                     in r'\<lparr> dropOnError :=
                              (case o_dropOnError opts of Some b \<Rightarrow> Some b | None \<Rightarrow> Some True),
                            pendingGenerateTimeout :=
                              (case o_pendingGenerateTimeout opts of Some n \<Rightarrow> Some n
                               | None \<Rightarrow> Some 0) \<rparr>)
               else r0)
     in r1\<lparr> generateOnReadError :=
              (case o_generateOnReadError opts of Some b \<Rightarrow> Some b | None \<Rightarrow> Some True),
            generateIgnoreWriteError :=
              (case o_generateIgnoreWriteError opts of Some b \<Rightarrow> Some b | None \<Rightarrow> Some True) \<rparr>)"

text \<open>
  \<^verbatim>\<open>internals.Policy.compile(options, serverSide)\<close>. A missing options object is
  \<open>None\<close>. Every throw of the source is an \<open>Inl\<close>.
\<close>

definition Policy_compile :: "'g options option \<Rightarrow> bool \<Rightarrow> compile_error + 'g rule" where
  "Policy_compile options serverSide =
    (case options of
       None \<Rightarrow> Inr empty_rule
     | Some opts \<Rightarrow>
         if no_keys opts then Inr empty_rule
         else if \<not> schema opts then Inl ValidationError
         else (case assertions opts serverSide of
                 Some msg \<Rightarrow> Inl (AssertionError msg)
               | None \<Rightarrow>
                   (case o_expiresAt opts of
                      Some s \<Rightarrow>
                        (case exec_expiresAt s of
                           None \<Rightarrow> Inl CompileTypeError
                         | Some (hs, ms) \<Rightarrow>
                             Inr (compile_generate opts
                                    (empty_rule\<lparr> expiresAt := Some (parseInt hs, parseInt ms) \<rparr>)))
                    | None \<Rightarrow>
                        Inr (compile_generate opts
                               (empty_rule\<lparr> expiresIn :=
                                  Some (if truthy_num (o_expiresIn opts)
                                        then the (o_expiresIn opts) else 0) \<rparr>)))))"

section \<open>Keys, entries, reports\<close>

text \<open>
  A key is a scalar or an object carrying an \<^verbatim>\<open>id\<close> field (\<open>Undefined\<close> when
  the object has none). Values that are stored are opaque; they are represented by
  strings, and callbacks by the number that identifies them.
\<close>

datatype scalar = Undefined | Null | Str string | Number int

datatype key = Plain scalar | Object scalar

type_synonym item = string

datatype func = Func nat

text \<open>\<^verbatim>\<open>(key && typeof key === 'object') ? key.id : key\<close>\<close>

fun key_id :: "key \<Rightarrow> scalar" where
  "key_id (Object i) = i"
| "key_id (Plain k) = k"

fun truthy :: "scalar \<Rightarrow> bool" where
  "truthy Undefined = False"
| "truthy Null = False"
| "truthy (Str s) = (s \<noteq> [])"
| "truthy (Number n) = (n \<noteq> 0)"

text \<open>The string a scalar becomes in a concatenation (a number is an integer, in decimal).\<close>

fun string_of_nat :: "nat \<Rightarrow> string" where
  "string_of_nat n =
     (if n < 10 then [''0123456789'' ! n]
      else string_of_nat (n div 10) @ [''0123456789'' ! (n mod 10)])"

fun to_string :: "scalar \<Rightarrow> string" where
  "to_string Undefined = ''undefined''"
| "to_string Null = ''null''"
| "to_string (Str s) = s"
| "to_string (Number n) =
     (if n < 0 then CHR ''-'' # string_of_nat (nat (- n)) else string_of_nat (nat n))"

text \<open>\<^verbatim>\<open>'+' + id\<close>, the key of both tables.\<close>

definition pendingsId :: "scalar \<Rightarrow> string" where
  "pendingsId i = CHR ''+'' # to_string i"

datatype jserror = Error string | ServerTimeout | TypeError

text \<open>
  The entry the backend returns, \<^verbatim>\<open>{item, stored, ttl}\<close>, to which \<^verbatim>\<open>get\<close>
  adds \<^verbatim>\<open>isStale\<close>. The object is mutated in place by the source (\<^verbatim>\<open>isStale\<close>
  in \<^verbatim>\<open>get\<close>, \<^verbatim>\<open>ttl\<close> in \<^verbatim>\<open>_generate\<close>), each time before any closure
  that holds it runs, so the closures of the model hold the entry as it is after the
  mutation.
\<close>

record cached =
  item :: item
  stored :: int
  ttl :: jsnum
  isStale :: "bool option"

record report =
  msec :: int
  error :: "jserror option"
  r_stored :: "int option"
  r_ttl :: "jsnum option"
  r_isStale :: "bool option"

section \<open>The policy and what it asks of its environment\<close>

text \<open>
  A waiter is the callback of a \<^verbatim>\<open>get\<close>, as given or bound to the active
  \<^verbatim>\<open>process.domain\<close>.
\<close>

datatype waiter = Direct func | Bound func

text \<open>
  The callback handed to \<^verbatim>\<open>set\<close> and \<^verbatim>\<open>drop\<close>: \<^verbatim>\<open>Hoek.ignore\<close>, a
  callback of the caller, or the closure \<^verbatim>\<open>finalize\<close> of \<^verbatim>\<open>_callGenerateFunc\<close>,
  which holds the once-wrapper \<^verbatim>\<open>respond\<close> (its number), \<^verbatim>\<open>id\<close>,
  \<^verbatim>\<open>generateError\<close>, \<^verbatim>\<open>value\<close>, \<^verbatim>\<open>cached\<close> and \<^verbatim>\<open>report\<close>.
\<close>

datatype callback_t =
    Ignore
  | Caller func
  | Finalize nat scalar "jserror option" "item option" "cached option" report

text \<open>The closures given to \<^verbatim>\<open>setTimeout\<close>.\<close>

datatype timer_t =
    StaleFallback nat scalar cached report
  | GenerateTimeout nat scalar report
  | ClearPendingGenerate string

text \<open>
  Everything a function of the policy does to the outside, in the order it does it:
  calls of the backend (with the segment, the id and the closure that is the callback),
  timers, deferred calls of waiters (\<^verbatim>\<open>Hoek.nextTick\<close>), direct calls of a caller's
  callback, and the call of the producer.
\<close>

datatype effect =
    CacheGet string scalar key
  | CacheSet string scalar "item option" int callback_t
  | CacheDrop string scalar callback_t
  | SetTimeout int timer_t
  | NextTickGet scalar key
  | NextTick waiter "jserror option" "item option" "cached option" report
  | Call func "jserror option"
  | CallGenerateFunc key nat scalar "cached option" report

record stats =
  sets :: nat
  gets :: nat
  hits :: nat
  stales :: nat
  generates :: nat
  errors :: nat

text \<open>
  The policy object. \<open>cache\<close> says whether \<^verbatim>\<open>_cache\<close> is set. Each call of
  \<^verbatim>\<open>Hoek.once\<close> makes a wrapper with a flag of its own: \<open>onces\<close> counts the
  wrappers made, \<open>fired\<close> lists those whose flag is set.
\<close>

record policy =
  cache :: bool
  segment :: string
  rule :: "func rule"
  pendings :: "string \<rightharpoonup> waiter list"
  pendingGenerateCall :: "string \<rightharpoonup> bool"
  stats :: stats
  onces :: nat
  fired :: "nat list"

text \<open>
  The result of running a function of the policy: the policy after it, the effects, and
  the exception that left the function, if one did.
\<close>

type_synonym outcome = "policy \<times> effect list \<times> jserror option"

text \<open>
  The constructor. \<open>nameErr\<close> is what \<^verbatim>\<open>cache.validateSegmentName(segment)\<close>
  returns; without a cache the segment is not kept.
\<close>

definition Policy ::
  "func options option \<Rightarrow> string option \<Rightarrow> jserror option \<Rightarrow> compile_error + policy" where
  "Policy options cache_segment nameErr =
    (case Policy_compile options (cache_segment \<noteq> None) of
       Inl e \<Rightarrow> Inl e
     | Inr r \<Rightarrow>
         if cache_segment \<noteq> None \<and> nameErr \<noteq> None
         then Inl (AssertionError ''Invalid segment name'')
         else Inr \<lparr> cache = (cache_segment \<noteq> None),
                    segment = (case cache_segment of Some sg \<Rightarrow> sg | None \<Rightarrow> []),
                    rule = r, pendings = Map.empty, pendingGenerateCall = Map.empty,
                    stats = \<lparr> sets = 0, gets = 0, hits = 0, stales = 0, generates = 0,
                              errors = 0 \<rparr>,
                    onces = 0, fired = [] \<rparr>)"

section \<open>Delivery\<close>

text \<open>
  \<^verbatim>\<open>internals.respond(policy, id, err, value, cached, report)\<close>. Without an entry
  in the table, \<^verbatim>\<open>pendings.length\<close> throws a TypeError.
\<close>

definition respond ::
  "policy \<Rightarrow> scalar \<Rightarrow> jserror option \<Rightarrow> item option \<Rightarrow> cached option \<Rightarrow> report \<Rightarrow> outcome" where
  "respond p i err v c rep =
    (let pid = pendingsId i in
     case pendings p pid of
       None \<Rightarrow> (p, [], Some TypeError)
     | Some ws \<Rightarrow>
         (let p1 = p\<lparr> pendings := (pendings p)(pid := None) \<rparr>;
              p2 = (if r_isStale rep \<noteq> None
                    then p1\<lparr> stats := (stats p1)\<lparr> hits := hits (stats p1) + length ws \<rparr> \<rparr>
                    else p1)
          in (p2, map (\<lambda>w. NextTick w err v c rep) ws, None)))"

text \<open>
  A call of the wrapper \<^verbatim>\<open>Hoek.once(internals.respond)\<close> number \<open>n\<close>: the flag is
  set before the wrapped function runs, and a wrapper whose flag is set does nothing.
\<close>

definition respond_once ::
  "nat \<Rightarrow> policy \<Rightarrow> scalar \<Rightarrow> jserror option \<Rightarrow> item option \<Rightarrow> cached option \<Rightarrow> report \<Rightarrow> outcome" where
  "respond_once n p i err v c rep =
    (if n \<in> set (fired p) then (p, [], None)
     else respond (p\<lparr> fired := n # fired p \<rparr>) i err v c rep)"

text \<open>
  The closure \<^verbatim>\<open>finalize\<close> of \<^verbatim>\<open>_callGenerateFunc\<close>, called with the error of
  the write or the drop (\<open>None\<close> when called with none).
\<close>

definition finalize ::
  "nat \<Rightarrow> scalar \<Rightarrow> jserror option \<Rightarrow> item option \<Rightarrow> cached option \<Rightarrow> report \<Rightarrow>
   policy \<Rightarrow> jserror option \<Rightarrow> outcome" where
  "finalize n i generateError v c rep p err =
    (let error = (case generateError of
                    Some e \<Rightarrow> Some e
                  | None \<Rightarrow> if truthy_bool (generateIgnoreWriteError (rule p)) then None else err)
     in case c of
          Some cd \<Rightarrow>
            if error \<noteq> None \<and> \<not> truthy_bool (dropOnError (rule p))
            then respond_once n p i error (Some (item cd)) (Some cd) rep
            else respond_once n p i error v None rep
        | None \<Rightarrow> respond_once n p i error v None rep)"

text \<open>Calling the callback of a \<^verbatim>\<open>set\<close> or a \<^verbatim>\<open>drop\<close> with an error or none.\<close>

fun call_back :: "callback_t \<Rightarrow> policy \<Rightarrow> jserror option \<Rightarrow> outcome" where
  "call_back Ignore p err = (p, [], None)"
| "call_back (Caller f) p err = (p, [Call f err], None)"
| "call_back (Finalize n i generateError v c rep) p err = finalize n i generateError v c rep p err"

section \<open>set and drop\<close>

definition count_error :: "policy \<Rightarrow> jserror option \<Rightarrow> policy" where
  "count_error p err =
     (if err \<noteq> None then p\<lparr> stats := (stats p)\<lparr> errors := errors (stats p) + 1 \<rparr> \<rparr> else p)"

text \<open>
  \<^verbatim>\<open>Policy.prototype.set(key, value, ttl, callback)\<close>; \<open>localAt\<close> and \<open>clock\<close>
  are the host's calendar and \<^verbatim>\<open>Date.now()\<close>, for the default ttl.
\<close>

definition Policy_set ::
  "(int \<Rightarrow> int \<Rightarrow> int \<Rightarrow> int) \<Rightarrow> int \<Rightarrow> policy \<Rightarrow> key \<Rightarrow> item option \<Rightarrow> int option \<Rightarrow>
   callback_t \<Rightarrow> outcome" where
  "Policy_set localAt clock p k v ttl0 callback =
    (let p1 = p\<lparr> stats := (stats p)\<lparr> sets := sets (stats p) + 1 \<rparr> \<rparr> in
     if \<not> cache p1 then call_back callback p1 None
     else (let ttl1 = (if truthy_num ttl0 then the ttl0
                       else Policy_ttl localAt clock (rule p1) None None)
           in (p1, [CacheSet (segment p1) (key_id k) v ttl1 callback], None)))"

text \<open>The callback \<^verbatim>\<open>set\<close> gives the backend.\<close>

definition set_done :: "callback_t \<Rightarrow> policy \<Rightarrow> jserror option \<Rightarrow> outcome" where
  "set_done callback p err = call_back callback (count_error p err) err"

text \<open>\<^verbatim>\<open>Policy.prototype.drop(key, callback)\<close>\<close>

definition Policy_drop :: "policy \<Rightarrow> key \<Rightarrow> callback_t \<Rightarrow> outcome" where
  "Policy_drop p k callback =
    (if \<not> cache p then call_back callback p None
     else if \<not> truthy (key_id k) then call_back callback p (Some (Error ''Invalid key''))
     else (p, [CacheDrop (segment p) (key_id k) callback], None))"

text \<open>The callback \<^verbatim>\<open>drop\<close> gives the backend.\<close>

definition drop_done :: "callback_t \<Rightarrow> policy \<Rightarrow> jserror option \<Rightarrow> outcome" where
  "drop_done callback p err = call_back callback (count_error p err) err"

text \<open>\<^verbatim>\<open>callback = callback || Hoek.ignore\<close> for a caller of \<^verbatim>\<open>set\<close> or \<^verbatim>\<open>drop\<close>.\<close>

fun or_ignore :: "func option \<Rightarrow> callback_t" where
  "or_ignore None = Ignore"
| "or_ignore (Some f) = Caller f"

section \<open>Generation\<close>

text \<open>
  The callback \<^verbatim>\<open>(generateError, value, ttl) => ...\<close> that \<^verbatim>\<open>_callGenerateFunc\<close>
  gives the producer, with the variables it closes over.
\<close>

definition generate_done ::
  "(int \<Rightarrow> int \<Rightarrow> int \<Rightarrow> int) \<Rightarrow> int \<Rightarrow> nat \<Rightarrow> scalar \<Rightarrow> cached option \<Rightarrow> report \<Rightarrow> policy \<Rightarrow>
   jserror option \<Rightarrow> item option \<Rightarrow> int option \<Rightarrow> outcome" where
  "generate_done localAt clock n i c rep p generateError v ttl0 =
    (let p1 = p\<lparr> pendingGenerateCall := (pendingGenerateCall p)(pendingsId i := None) \<rparr>;
         fin = Finalize n i generateError v c rep
     in if (generateError \<noteq> None \<and> truthy_bool (dropOnError (rule p1))) \<or> ttl0 = Some 0
        then Policy_drop p1 (Plain i) fin
        else if generateError = None
        then Policy_set localAt clock p1 (Plain i) v ttl0 fin
        else call_back fin p1 None)"

text \<open>
  What the producer does before its call returns: it may call its callback, and it
  returns or throws. (A callback that comes later is \<open>generate_done\<close> on its own.)
\<close>

datatype producer_call =
    Returns "(jserror option \<times> item option \<times> int option) option"
  | Throws "(jserror option \<times> item option \<times> int option) option" jserror

text \<open>
  The body of the \<^verbatim>\<open>try\<close> in \<^verbatim>\<open>_generate\<close>:
  \<^verbatim>\<open>this.rule.generateFunc.call(null, key, callback)\<close>. Calling a missing
  \<^verbatim>\<open>generateFunc\<close> throws a TypeError; an exception of the callback leaves the
  producer.
\<close>

definition Policy__callGenerateFunc ::
  "(int \<Rightarrow> int \<Rightarrow> int \<Rightarrow> int) \<Rightarrow> int \<Rightarrow> policy \<Rightarrow> scalar \<Rightarrow> key \<Rightarrow> cached option \<Rightarrow> report \<Rightarrow>
   nat \<Rightarrow> producer_call \<Rightarrow> outcome" where
  "Policy__callGenerateFunc localAt clock p i k c rep n producer =
    (if generateFunc (rule p) = None then (p, [], Some TypeError)
     else (let called = (case producer of Returns a \<Rightarrow> a | Throws a e \<Rightarrow> a);
               thrown = (case producer of Returns a \<Rightarrow> None | Throws a e \<Rightarrow> Some e);
               (p1, effs, exn) =
                  (case called of
                     None \<Rightarrow> (p, [], None)
                   | Some (generateError, v, ttl0) \<Rightarrow>
                       generate_done localAt clock n i c rep p generateError v ttl0)
           in (p1, CallGenerateFunc k n i c rep # effs,
               (case exn of Some x \<Rightarrow> Some x | None \<Rightarrow> thrown))))"

text \<open>
  \<^verbatim>\<open>Policy.prototype._generate(id, key, cached, report)\<close>, in three parts.
  First the stale entry: \<^verbatim>\<open>cached.ttl = cached.ttl - this.rule.staleTimeout\<close>.
\<close>

definition adjust_ttl :: "policy \<Rightarrow> cached option \<Rightarrow> cached option" where
  "adjust_ttl p c =
    (case c of
       Some cd \<Rightarrow> Some (cd\<lparr> ttl := jsnum_minus (ttl cd) (staleTimeout (rule p)) \<rparr>)
     | None \<Rightarrow> None)"

text \<open>
  The timer of the stale entry (\<open>c\<close> is the entry after the subtraction; with a
  positive ttl the \<^verbatim>\<open>staleTimeout\<close> is a number), or else the timer of the
  generation when nothing is cached. \<open>n\<close> is the number of the once-wrapper.
\<close>

definition fallback_timers ::
  "policy \<Rightarrow> nat \<Rightarrow> scalar \<Rightarrow> cached option \<Rightarrow> report \<Rightarrow> effect list" where
  "fallback_timers p n i c rep =
    (case c of
       Some cd \<Rightarrow>
         if jsnum_positive (ttl cd)
         then (case staleTimeout (rule p) of
                 Some st \<Rightarrow> [SetTimeout st (StaleFallback n i cd rep)]
               | None \<Rightarrow> [])
         else []
     | None \<Rightarrow>
         (case generateTimeout (rule p) of
            Some (TimeoutMs gt) \<Rightarrow>
              if gt \<noteq> 0 then [SetTimeout gt (GenerateTimeout n i rep)] else []
          | _ \<Rightarrow> []))"

text \<open>
  The block under \<^verbatim>\<open>if (!this._pendingGenerateCall[pendingId])\<close>: the count, the
  pending mark with its timer, and the \<^verbatim>\<open>try\<close> with its \<^verbatim>\<open>catch\<close>.
\<close>

definition pending_timer :: "policy \<Rightarrow> string \<Rightarrow> effect list" where
  "pending_timer p pid =
    (if truthy_num (pendingGenerateTimeout (rule p))
     then [SetTimeout (the (pendingGenerateTimeout (rule p))) (ClearPendingGenerate pid)]
     else [])"

definition mark_pending :: "policy \<Rightarrow> string \<Rightarrow> policy" where
  "mark_pending p pid =
    (let p1 = p\<lparr> stats := (stats p)\<lparr> generates := generates (stats p) + 1 \<rparr> \<rparr>
     in if truthy_num (pendingGenerateTimeout (rule p1))
        then p1\<lparr> pendingGenerateCall := (pendingGenerateCall p1)(pid \<mapsto> True) \<rparr>
        else p1)"

definition generate_catch :: "nat \<Rightarrow> scalar \<Rightarrow> report \<Rightarrow> outcome \<Rightarrow> outcome" where
  "generate_catch n i rep tried =
    (case tried of
       (p3, effs, None) \<Rightarrow> (p3, effs, None)
     | (p3, effs, Some err) \<Rightarrow>
         (case respond_once n
                 (p3\<lparr> pendingGenerateCall := (pendingGenerateCall p3)(pendingsId i := None) \<rparr>)
                 i (Some err) None None rep of
            (p5, effs5, exn5) \<Rightarrow> (p5, effs @ effs5, exn5)))"

definition Policy__generate ::
  "(int \<Rightarrow> int \<Rightarrow> int \<Rightarrow> int) \<Rightarrow> int \<Rightarrow> policy \<Rightarrow> scalar \<Rightarrow> key \<Rightarrow> cached option \<Rightarrow> report \<Rightarrow>
   producer_call \<Rightarrow> outcome" where
  "Policy__generate localAt clock p i k c rep producer =
    (let n = onces p;
         p0 = p\<lparr> onces := Suc n \<rparr>;
         c1 = adjust_ttl p0 c;
         timers = fallback_timers p0 n i c1 rep;
         pid = pendingsId i
     in if truthy_bool (pendingGenerateCall p0 pid) then (p0, timers, None)
        else (case generate_catch n i rep
                     (Policy__callGenerateFunc localAt clock (mark_pending p0 pid) i k c1 rep n
                        producer) of
                (p5, effs, exn) \<Rightarrow> (p5, timers @ pending_timer p0 pid @ effs, exn)))"

text \<open>A timer fires: the closure given to \<^verbatim>\<open>setTimeout\<close> runs.\<close>

fun timer_fired :: "policy \<Rightarrow> timer_t \<Rightarrow> outcome" where
  "timer_fired p (StaleFallback n i cd rep) = respond_once n p i None (Some (item cd)) (Some cd) rep"
| "timer_fired p (GenerateTimeout n i rep) = respond_once n p i (Some ServerTimeout) None None rep"
| "timer_fired p (ClearPendingGenerate pid) =
     (p\<lparr> pendingGenerateCall := (pendingGenerateCall p)(pid := None) \<rparr>, [], None)"

section \<open>get\<close>

text \<open>\<^verbatim>\<open>Policy.prototype._get(id, callback)\<close>; the callback is the closure of \<^verbatim>\<open>get\<close>.\<close>

definition Policy__get :: "policy \<Rightarrow> scalar \<Rightarrow> key \<Rightarrow> outcome" where
  "Policy__get p i k =
    (if \<not> cache p then (p, [NextTickGet i k], None)
     else (p, [CacheGet (segment p) i k], None))"

text \<open>
  \<^verbatim>\<open>Policy.prototype.get(key, callback)\<close> up to its return; \<open>domain\<close> says
  whether \<^verbatim>\<open>process.domain\<close> is set.
\<close>

definition Policy_get :: "policy \<Rightarrow> key \<Rightarrow> func \<Rightarrow> bool \<Rightarrow> outcome" where
  "Policy_get p k callback domain =
    (let p1 = p\<lparr> stats := (stats p)\<lparr> gets := gets (stats p) + 1 \<rparr> \<rparr>;
         i = key_id k;
         pid = pendingsId i
     in case pendings p1 pid of
          Some ws \<Rightarrow>
            (p1\<lparr> pendings := (pendings p1)(pid \<mapsto>
                    ws @ [if domain then Bound callback else Direct callback]) \<rparr>, [], None)
        | None \<Rightarrow>
            Policy__get (p1\<lparr> pendings := (pendings p1)(pid \<mapsto> [Direct callback]) \<rparr>) i k)"

text \<open>The report and the entry with \<^verbatim>\<open>isStale\<close> set, as the callback of \<^verbatim>\<open>get\<close> prepares them.\<close>

definition stale_now :: "func rule \<Rightarrow> int \<Rightarrow> cached \<Rightarrow> bool" where
  "stale_now r clock cd =
    (let staleIn_ms = (case staleIn r of
                         Some (StaleFn f) \<Rightarrow> Some (f (stored cd) (ttl cd))
                       | Some (StaleMs n) \<Rightarrow> Some n
                       | None \<Rightarrow> None)
     in if truthy_num staleIn_ms then clock - stored cd \<ge> the staleIn_ms else False)"

definition mark_stale :: "func rule \<Rightarrow> int \<Rightarrow> cached option \<Rightarrow> cached option" where
  "mark_stale r clock c =
    (case c of None \<Rightarrow> None | Some cd \<Rightarrow> Some (cd\<lparr> isStale := Some (stale_now r clock cd) \<rparr>))"

definition make_report :: "func rule \<Rightarrow> int \<Rightarrow> int \<Rightarrow> jserror option \<Rightarrow> cached option \<Rightarrow> report" where
  "make_report r clock elapsed err c =
    (case c of
       None \<Rightarrow> \<lparr> msec = elapsed, error = err, r_stored = None, r_ttl = None, r_isStale = None \<rparr>
     | Some cd \<Rightarrow> \<lparr> msec = elapsed, error = err, r_stored = Some (stored cd),
                    r_ttl = Some (ttl cd), r_isStale = Some (stale_now r clock cd) \<rparr>)"

text \<open>
  The callback \<^verbatim>\<open>(err, cached) => ...\<close> that \<^verbatim>\<open>get\<close> gives \<^verbatim>\<open>_get\<close>, with
  \<^verbatim>\<open>id\<close> and \<^verbatim>\<open>key\<close> it closes over; \<open>elapsed\<close> is \<^verbatim>\<open>timer.elapsed()\<close>.
\<close>

definition get_done ::
  "(int \<Rightarrow> int \<Rightarrow> int \<Rightarrow> int) \<Rightarrow> int \<Rightarrow> int \<Rightarrow> scalar \<Rightarrow> key \<Rightarrow> policy \<Rightarrow> jserror option \<Rightarrow>
   cached option \<Rightarrow> producer_call \<Rightarrow> outcome" where
  "get_done localAt clock elapsed i k p err c0 producer =
    (let p1 = count_error p err;
         rep = make_report (rule p1) clock elapsed err c0;
         c = mark_stale (rule p1) clock c0;
         p2 = (case c of
                 Some cd \<Rightarrow>
                   if isStale cd = Some True
                   then p1\<lparr> stats := (stats p1)\<lparr> stales := stales (stats p1) + 1 \<rparr> \<rparr>
                   else p1
               | None \<Rightarrow> p1)
     in if generateFunc (rule p2) = None \<or>
           (err \<noteq> None \<and> \<not> truthy_bool (generateOnReadError (rule p2)))
        then respond p2 i err (case c of Some cd \<Rightarrow> Some (item cd) | None \<Rightarrow> None) c rep
        else (case c of
                Some cd \<Rightarrow>
                  if isStale cd \<noteq> Some True
                  then respond p2 i None (Some (item cd)) c rep
                  else Policy__generate localAt clock p2 i k c rep producer
              | None \<Rightarrow> Policy__generate localAt clock p2 i k c rep producer))"

section \<open>Runs\<close>

text \<open>
  The policy runs on one thread: a caller calls \<^verbatim>\<open>get\<close>, \<^verbatim>\<open>set\<close> or
  \<^verbatim>\<open>drop\<close>, or the environment runs a closure it was handed (a backend callback, the
  callback of the producer, a timer). \<open>GetDone\<close> carries what the callback of
  \<^verbatim>\<open>get\<close> needs from outside: the error and the entry of the backend, the reading of
  \<^verbatim>\<open>timer.elapsed()\<close> and how the producer behaves if it is called.
\<close>

datatype event =
    GetCall key func bool
  | SetCall key "item option" "int option" "func option"
  | DropCall key "func option"
  | GetDone scalar key "jserror option" "cached option" int producer_call
  | SetDone callback_t "jserror option"
  | DropDone callback_t "jserror option"
  | GenerateDone nat scalar "cached option" report "jserror option" "item option" "int option"
  | TimerFired timer_t

fun step :: "(int \<Rightarrow> int \<Rightarrow> int \<Rightarrow> int) \<Rightarrow> int \<Rightarrow> policy \<Rightarrow> event \<Rightarrow> outcome" where
  "step localAt clock p (GetCall k f d) = Policy_get p k f d"
| "step localAt clock p (SetCall k v t f) = Policy_set localAt clock p k v t (or_ignore f)"
| "step localAt clock p (DropCall k f) = Policy_drop p k (or_ignore f)"
| "step localAt clock p (GetDone i k err c elapsed producer) =
     get_done localAt clock elapsed i k p err c producer"
| "step localAt clock p (SetDone cb err) = set_done cb p err"
| "step localAt clock p (DropDone cb err) = drop_done cb p err"
| "step localAt clock p (GenerateDone n i c rep generateError v t) =
     generate_done localAt clock n i c rep p generateError v t"
| "step localAt clock p (TimerFired t) = timer_fired p t"

text \<open>
  A run: events with the time at which each happens. The result is the policy at the
  end and the effects of each event, in order; an exception that nothing catches ends
  the run.
\<close>

fun run :: "(int \<Rightarrow> int \<Rightarrow> int \<Rightarrow> int) \<Rightarrow> policy \<Rightarrow> (int \<times> event) list \<Rightarrow>
            policy \<times> effect list list \<times> jserror option" where
  "run localAt p [] = (p, [], None)"
| "run localAt p ((clock, ev) # evs) =
     (case step localAt clock p ev of
        (p1, effs, Some x) \<Rightarrow> (p1, [effs], Some x)
      | (p1, effs, None) \<Rightarrow>
          (case run localAt p1 evs of (p2, effss, x) \<Rightarrow> (p2, effs # effss, x)))"

text \<open>Successive calls of \<^verbatim>\<open>get\<close> with nothing in between: the policy and all effects.\<close>

fun get_all :: "policy \<Rightarrow> (key \<times> func \<times> bool) list \<Rightarrow> policy \<times> effect list" where
  "get_all p [] = (p, [])"
| "get_all p ((k, f, d) # cs) =
     (case Policy_get p k f d of
        (p1, effs, x) \<Rightarrow> (case get_all p1 cs of (p2, effs2) \<Rightarrow> (p2, effs @ effs2)))"

fun waiter_of :: "key \<times> func \<times> bool \<Rightarrow> waiter" where
  "waiter_of (k, f, d) = (if d then Bound f else Direct f)"

text \<open>The effects that are a lookup (\<^verbatim>\<open>_get\<close> at work) and those that reach the backend.\<close>

fun is_lookup :: "effect \<Rightarrow> bool" where
  "is_lookup (CacheGet sg i k) = True"
| "is_lookup (NextTickGet i k) = True"
| "is_lookup _ = False"

fun is_backend_get :: "effect \<Rightarrow> bool" where
  "is_backend_get (CacheGet sg i k) = True"
| "is_backend_get _ = False"

text \<open>A timer whose closure calls \<^verbatim>\<open>respond\<close>, and a call of the producer.\<close>

fun resolving_timer :: "effect \<Rightarrow> bool" where
  "resolving_timer (SetTimeout d (StaleFallback n i cd rep)) = True"
| "resolving_timer (SetTimeout d (GenerateTimeout n i rep)) = True"
| "resolving_timer _ = False"

fun is_delivery :: "effect \<Rightarrow> bool" where
  "is_delivery (NextTick w err v c rep) = True"
| "is_delivery _ = False"

text \<open>The deliveries of one completion to a list of waiters, in the order of the list.\<close>

definition deliver ::
  "waiter list \<Rightarrow> jserror option \<Rightarrow> item option \<Rightarrow> cached option \<Rightarrow> report \<Rightarrow> effect list" where
  "deliver ws err v c rep = map (\<lambda>w. NextTick w err v c rep) ws"

section \<open>A policy with stale options\<close>

text \<open>
  The options \<^verbatim>\<open>{expiresIn: 1000, staleIn: 500, staleTimeout: 100, generateFunc,
  generateTimeout: 2000, pendingGenerateTimeout: 5000}\<close>, the policy the constructor
  makes of them over a cache with the segment \<^verbatim>\<open>seg\<close>, and the same policy without a
  cache and without options.
\<close>

definition stale_options :: "func options" where
  "stale_options = empty_options\<lparr> o_expiresIn := Some 1000, o_staleIn := Some (StaleMs 500),
     o_staleTimeout := Some 100, o_generateFunc := Some (Func 0),
     o_generateTimeout := Some (TimeoutMs 2000), o_pendingGenerateTimeout := Some 5000 \<rparr>"

definition stale_rule :: "func rule" where
  "stale_rule = \<lparr> expiresIn = Some 1000, expiresAt = None, generateFunc = Some (Func 0),
     generateTimeout = Some (TimeoutMs 2000), staleIn = Some (StaleMs 500),
     staleTimeout = Some 100, dropOnError = Some True, pendingGenerateTimeout = Some 5000,
     generateOnReadError = Some True, generateIgnoreWriteError = Some True \<rparr>"

definition no_stats :: stats where
  "no_stats = \<lparr> sets = 0, gets = 0, hits = 0, stales = 0, generates = 0, errors = 0 \<rparr>"

definition stale_policy :: policy where
  "stale_policy = \<lparr> cache = True, segment = ''seg'', rule = stale_rule, pendings = Map.empty,
     pendingGenerateCall = Map.empty, stats = no_stats, onces = 0, fired = [] \<rparr>"

definition bare_policy :: policy where
  "bare_policy = \<lparr> cache = False, segment = [], rule = empty_rule, pendings = Map.empty,
     pendingGenerateCall = Map.empty, stats = no_stats, onces = 0, fired = [] \<rparr>"

text \<open>
  An entry of the key \<^verbatim>\<open>k\<close> written at 999150 with a lifetime of 1000 ms, as the
  backend returns it at 1000000 and at 1000110, and what \<^verbatim>\<open>get\<close> and
  \<^verbatim>\<open>_generate\<close> make of the first reading: the report, and the entry marked stale
  with its ttl lowered by \<^verbatim>\<open>staleTimeout\<close>.
\<close>

definition key_k :: key where
  "key_k = Plain (Str ''k'')"

definition entry_150 :: cached where
  "entry_150 = \<lparr> item = ''v'', stored = 999150, ttl = Num 150, isStale = None \<rparr>"

definition entry_40 :: cached where
  "entry_40 = \<lparr> item = ''v'', stored = 999150, ttl = Num 40, isStale = None \<rparr>"

definition report_150 :: report where
  "report_150 = \<lparr> msec = 1, error = None, r_stored = Some 999150, r_ttl = Some (Num 150),
     r_isStale = Some True \<rparr>"

definition stale_50 :: cached where
  "stale_50 = \<lparr> item = ''v'', stored = 999150, ttl = Num 50, isStale = Some True \<rparr>"

text \<open>
  A run of the stale policy. A first \<^verbatim>\<open>get\<close> finds the entry stale with 150 ms to
  live: the fallback timer is set, the producer is called and marked pending. The
  fallback fires and delivers the stale value. A second \<^verbatim>\<open>get\<close> finds the entry
  with 40 ms to live. Then everything that is outstanding happens: the producer calls
  back with a value, the backend confirms the write, the pending mark times out. A third
  \<^verbatim>\<open>get\<close> follows.
\<close>

definition stale_run :: "(int \<times> event) list" where
  "stale_run =
    [(1000000, GetCall key_k (Func 1) False),
     (1000000, GetDone (Str ''k'') key_k None (Some entry_150) 1 (Returns None)),
     (1000100, TimerFired (StaleFallback 0 (Str ''k'') stale_50 report_150)),
     (1000110, GetCall key_k (Func 2) False),
     (1000110, GetDone (Str ''k'') key_k None (Some entry_40) 1 (Returns None)),
     (1003000, GenerateDone 0 (Str ''k'') (Some stale_50) report_150 None (Some ''new'') None),
     (1003001, SetDone (Finalize 0 (Str ''k'') None (Some ''new'') (Some stale_50) report_150) None),
     (1005000, TimerFired (ClearPendingGenerate ''+k'')),
     (1006000, GetCall key_k (Func 3) False)]"

section \<open>The completion a finalization is said to deliver\<close>

text \<open>
  In the words of the specification, to compare with \<open>finalize\<close>: the error is
  \<^verbatim>\<open>generateError\<close>, or else the error of the write or the drop unless
  \<^verbatim>\<open>generateIgnoreWriteError\<close> is true; with a prior cached value, an error and
  \<^verbatim>\<open>dropOnError\<close> false, the waiters receive
  \<^verbatim>\<open>(error, cached.item, cached, report)\<close>, otherwise
  \<^verbatim>\<open>(error, value, null, report)\<close>.
\<close>

definition finalized_error :: "policy \<Rightarrow> jserror option \<Rightarrow> jserror option \<Rightarrow> jserror option" where
  "finalized_error p generateError err =
    (case generateError of
       Some e \<Rightarrow> Some e
     | None \<Rightarrow> if generateIgnoreWriteError (rule p) = Some True then None else err)"

definition finalized_completion ::
  "policy \<Rightarrow> waiter list \<Rightarrow> jserror option \<Rightarrow> item option \<Rightarrow> cached option \<Rightarrow> report \<Rightarrow>
   jserror option \<Rightarrow> effect list" where
  "finalized_completion p ws generateError v c rep err =
    (case c of
       Some cd \<Rightarrow>
         if finalized_error p generateError err \<noteq> None \<and> dropOnError (rule p) \<noteq> Some True
         then deliver ws (finalized_error p generateError err) (Some (item cd)) (Some cd) rep
         else deliver ws (finalized_error p generateError err) v None rep
     | None \<Rightarrow> deliver ws (finalized_error p generateError err) v None rep)"

text \<open>The stale policy while a \<^verbatim>\<open>get\<close> of \<^verbatim>\<open>k\<close> with two waiters is unresolved.\<close>

definition waiting_policy :: policy where
  "waiting_policy = stale_policy\<lparr> pendings := [''+k'' \<mapsto> [Direct (Func 1), Bound (Func 2)]] \<rparr>"

text \<open>The same with \<^verbatim>\<open>dropOnError: false\<close>.\<close>

definition keeping_policy :: policy where
  "keeping_policy = waiting_policy\<lparr> rule := stale_rule\<lparr> dropOnError := Some False \<rparr> \<rparr>"


section \<open>What the effects carry, and what a resolution changes\<close>

text \<open>
  The reports and the cached entries that an effect carries: in a delivery, in the
  closure of a timer, in the closure given to the producer, and in \<^verbatim>\<open>finalize\<close>
  given to the backend. Then the relation between a policy and the policy after some
  function has run for the id \<open>i\<close> with the report \<open>rep\<close>: the waiters of \<open>i\<close>
  are as before and so is \<^verbatim>\<open>stats.hits\<close>, or the entry of \<open>i\<close> is gone and
  \<^verbatim>\<open>stats.hits\<close> has grown by their number if the report carries
  \<^verbatim>\<open>isStale\<close>; without an entry nothing changes.
\<close>

fun callback_reports :: "callback_t \<Rightarrow> report list" where
  "callback_reports (Finalize n i generateError v c rep) = [rep]"
| "callback_reports _ = []"

fun timer_reports :: "timer_t \<Rightarrow> report list" where
  "timer_reports (StaleFallback n i cd rep) = [rep]"
| "timer_reports (GenerateTimeout n i rep) = [rep]"
| "timer_reports (ClearPendingGenerate pid) = []"

fun reports_in :: "effect \<Rightarrow> report list" where
  "reports_in (CacheSet sg i v t cb) = callback_reports cb"
| "reports_in (CacheDrop sg i cb) = callback_reports cb"
| "reports_in (SetTimeout d t) = timer_reports t"
| "reports_in (NextTick w err v c rep) = [rep]"
| "reports_in (CallGenerateFunc k n i c rep) = [rep]"
| "reports_in _ = []"

fun entry_list :: "cached option \<Rightarrow> cached list" where
  "entry_list None = []"
| "entry_list (Some cd) = [cd]"

fun callback_entries :: "callback_t \<Rightarrow> cached list" where
  "callback_entries (Finalize n i generateError v c rep) = entry_list c"
| "callback_entries _ = []"

fun timer_entries :: "timer_t \<Rightarrow> cached list" where
  "timer_entries (StaleFallback n i cd rep) = [cd]"
| "timer_entries _ = []"

fun entries_in :: "effect \<Rightarrow> cached list" where
  "entries_in (CacheSet sg i v t cb) = callback_entries cb"
| "entries_in (CacheDrop sg i cb) = callback_entries cb"
| "entries_in (SetTimeout d t) = timer_entries t"
| "entries_in (NextTick w err v c rep) = entry_list c"
| "entries_in (CallGenerateFunc k n i c rep) = entry_list c"
| "entries_in _ = []"

definition reports_of :: "effect list \<Rightarrow> report set" where
  "reports_of effs = set (concat (map reports_in effs))"

definition entries_of :: "effect list \<Rightarrow> cached set" where
  "entries_of effs = set (concat (map entries_in effs))"

definition resolves :: "policy \<Rightarrow> scalar \<Rightarrow> report \<Rightarrow> policy \<Rightarrow> bool" where
  "resolves p i rep p' \<longleftrightarrow>
    (case pendings p (pendingsId i) of
       None \<Rightarrow> pendings p' (pendingsId i) = None \<and> hits (stats p') = hits (stats p)
     | Some ws \<Rightarrow>
         (pendings p' (pendingsId i) = Some ws \<and> hits (stats p') = hits (stats p)) \<or>
         (pendings p' (pendingsId i) = None \<and>
          hits (stats p') = hits (stats p) + (if r_isStale rep \<noteq> None then length ws else 0)))"

text \<open>The stale policy that surfaces write errors and keeps the entry on errors.\<close>

definition surfacing_policy :: policy where
  "surfacing_policy = waiting_policy\<lparr> rule := stale_rule\<lparr> dropOnError := Some False,
      generateIgnoreWriteError := Some False \<rparr> \<rparr>"

section \<open>Properties of the TTL calculator\<close>

text \<open>
  C5, for arguments that are given and not zero (the source replaces an omitted or zero
  \<^verbatim>\<open>now\<close> by the clock and an omitted or zero \<^verbatim>\<open>created\<close> by \<^verbatim>\<open>now\<close>):
  the ttl is 0 when \<open>now < created\<close>; otherwise it is
  \<open>max (expiresIn - (now - created)) 0\<close> when the rule has \<^verbatim>\<open>expiresIn\<close>; it is 0 when
  the rule has neither \<^verbatim>\<open>expiresIn\<close> nor \<^verbatim>\<open>expiresAt\<close>. With a positive
  \<^verbatim>\<open>expiresIn\<close>, the ttl at \<open>now = created\<close> is \<^verbatim>\<open>expiresIn\<close> and the ttl at
  \<open>now = created + expiresIn\<close> is 0.
\<close>

theorem ttl_formula:
  assumes "created \<noteq> 0" and "now \<noteq> 0"
  shows "(now < created \<longrightarrow> Policy_ttl localAt clock r (Some created) (Some now) = 0) \<and>
         (created \<le> now \<and> expiresIn r = Some e \<and> (e \<noteq> 0 \<or> expiresAt r = None) \<longrightarrow>
            Policy_ttl localAt clock r (Some created) (Some now) = max (e - (now - created)) 0) \<and>
         (expiresIn r = None \<and> expiresAt r = None \<longrightarrow>
            Policy_ttl localAt clock r (Some created) (Some now) = 0) \<and>
         (expiresIn r = Some e \<and> 0 < e \<longrightarrow>
            Policy_ttl localAt clock r (Some created) (Some created) = e \<and>
            (created + e \<noteq> 0 \<longrightarrow>
               Policy_ttl localAt clock r (Some created) (Some (created + e)) = 0))"
  using assms by (auto simp: Policy_ttl_def Let_def)

theorem ttl_formula_witness:
  "Policy_ttl utcAt 5000 (empty_rule\<lparr> expiresIn := Some 10 \<rparr> :: func rule) (Some 1000) (Some 1004) = 6 \<and>
   Policy_ttl utcAt 5000 (empty_rule\<lparr> expiresIn := Some 10 \<rparr> :: func rule) (Some 1000) (Some 1000) = 10 \<and>
   Policy_ttl utcAt 5000 (empty_rule\<lparr> expiresIn := Some 10 \<rparr> :: func rule) (Some 1000) (Some 1010) = 0"
  using ttl_formula [where created = 1000 and now = 1004 and e = 10 and localAt = utcAt
      and clock = 5000 and r = "empty_rule\<lparr> expiresIn := Some 10 \<rparr> :: func rule"]
  by (simp add: empty_rule_def)

text \<open>
  C5 as stated fails when an argument is 0. \<^verbatim>\<open>created || now\<close> takes \<^verbatim>\<open>now\<close>
  for a \<^verbatim>\<open>created\<close> of 0: the age is 0 and the ttl of a rule with
  \<^verbatim>\<open>expiresIn = 10\<close> at \<open>now = 5\<close> is 10, not \<open>max (10 - (5 - 0)) 0 = 5\<close>.
  \<^verbatim>\<open>now || Date.now()\<close> takes the clock for a \<^verbatim>\<open>now\<close> of 0: with the clock
  at 5000 and \<^verbatim>\<open>created = 5\<close> the ttl is not 0 although \<open>0 < 5\<close>.
\<close>

theorem ttl_formula_counterexample:
  "Policy_ttl utcAt 5000 (empty_rule\<lparr> expiresIn := Some 10 \<rparr> :: func rule) (Some 0) (Some 5)
     \<noteq> max (10 - (5 - 0)) 0 \<and>
   (0 :: int) < 5 \<and>
   Policy_ttl utcAt 5000 (empty_rule\<lparr> expiresIn := Some 10000 \<rparr> :: func rule) (Some 5) (Some 0)
     \<noteq> 0"
  by (simp add: Policy_ttl_def empty_rule_def)

text \<open>
  C6, from the creation on: for a rule of any kind, a \<^verbatim>\<open>created\<close> that is given and
  not zero, and two instants \<open>now1 \<le> now2\<close>, both given, not zero and not before
  \<^verbatim>\<open>created\<close>, the ttl at \<open>now2\<close> is at most the ttl at \<open>now1\<close>. The calendar
  of the host is arbitrary.
\<close>

theorem ttl_monotone:
  assumes "created \<noteq> 0" and "now1 \<noteq> 0" and "now2 \<noteq> 0"
      and "created \<le> now1" and "now1 \<le> now2"
  shows "Policy_ttl localAt clock r (Some created) (Some now2)
           \<le> Policy_ttl localAt clock r (Some created) (Some now1)"
  using assms by (auto simp: Policy_ttl_def Let_def split: option.splits)

theorem ttl_monotone_witness:
  "Policy_ttl utcAt 5000 (empty_rule\<lparr> expiresAt := Some (3, 0) \<rparr> :: func rule)
       (Some 14400000) (Some 18000000)
     \<le> Policy_ttl utcAt 5000 (empty_rule\<lparr> expiresAt := Some (3, 0) \<rparr> :: func rule)
       (Some 14400000) (Some 16200000)"
  using ttl_monotone [where created = 14400000 and ?now1.0 = 16200000 and ?now2.0 = 18000000
      and localAt = utcAt and clock = 5000
      and r = "empty_rule\<lparr> expiresAt := Some (3, 0) \<rparr> :: func rule"]
  by simp

text \<open>
  C6 as stated fails across the creation instant: before it the guard for an entry
  created in the future returns 0, at it the ttl is \<^verbatim>\<open>expiresIn\<close>. It also fails
  where an argument is 0 and is replaced: a \<^verbatim>\<open>now\<close> of 0 stands for the clock
  (here 5000), and with a \<^verbatim>\<open>created\<close> of 0 a rule with \<^verbatim>\<open>expiresAt\<close> 03:00
  counts from \<^verbatim>\<open>now\<close> itself, one minute at 02:59 and a day at 03:00.
\<close>

theorem ttl_monotone_counterexample:
  "(50 :: int) \<le> 100 \<and>
   Policy_ttl utcAt 5000 (empty_rule\<lparr> expiresIn := Some 10 \<rparr> :: func rule) (Some 100) (Some 50)
     < Policy_ttl utcAt 5000 (empty_rule\<lparr> expiresIn := Some 10 \<rparr> :: func rule) (Some 100) (Some 100) \<and>
   (0 :: int) \<le> 1 \<and>
   Policy_ttl utcAt 5000 (empty_rule\<lparr> expiresIn := Some 10 \<rparr> :: func rule) (Some (- 5)) (Some 0)
     < Policy_ttl utcAt 5000 (empty_rule\<lparr> expiresIn := Some 10 \<rparr> :: func rule) (Some (- 5)) (Some 1) \<and>
   (10740000 :: int) \<le> 10800000 \<and>
   Policy_ttl utcAt 5000 (empty_rule\<lparr> expiresAt := Some (3, 0) \<rparr> :: func rule) (Some 0) (Some 10740000)
     < Policy_ttl utcAt 5000 (empty_rule\<lparr> expiresAt := Some (3, 0) \<rparr> :: func rule) (Some 0) (Some 10800000)"
  by (simp add: Policy_ttl_def empty_rule_def utcAt_def day_def)

section \<open>Properties of the rule compiler\<close>

lemma exec_expiresAt_shape:
  assumes "exec_expiresAt s = Some (hs, ms)"
  shows "s = hs @ '':'' @ ms \<and> (length hs = 1 \<or> length hs = 2) \<and> length ms = 2 \<and>
         (\<forall>c \<in> set (hs @ ms). is_digit c)"
  using assms by (induction s rule: exec_expiresAt.induct) (auto split: if_splits)

lemma parseInt_bounds:
  assumes "\<forall>c \<in> set ds. is_digit c" and "length ds = 1 \<or> length ds = 2"
  shows "0 \<le> parseInt ds \<and> parseInt ds \<le> 99"
proof -
  from assms(2) consider a where "ds = [a]" | a b where "ds = [a, b]"
    by (cases ds; cases "tl ds"; cases "tl (tl ds)") auto
  then show ?thesis
    using assms(1) by cases (auto simp: parseInt_def is_digit_def)
qed

lemma compile_expiresAt:
  assumes "Policy_compile (Some opts) serverSide = Inr r" and "o_expiresAt opts = Some s"
  shows "o_expiresIn opts = None \<and>
         (\<exists>hs ms. exec_expiresAt s = Some (hs, ms) \<and>
                  expiresAt r = Some (parseInt hs, parseInt ms))"
  using assms
  by (auto simp: Policy_compile_def no_keys_def schema_def compile_generate_def Let_def
           split: if_splits option.splits)

text \<open>
  C8, with the range the pattern allows: when the options contain \<^verbatim>\<open>expiresAt\<close> and
  compilation succeeds, \<^verbatim>\<open>expiresIn\<close> is absent, the string is one or two digits, a
  colon and two digits, and the rule's \<^verbatim>\<open>expiresAt\<close> carries the two numbers, each
  between 0 and 99.
\<close>

theorem compile_expiresAt_valid:
  assumes "Policy_compile (Some opts) serverSide = Inr r" and "o_expiresAt opts = Some s"
  shows "o_expiresIn opts = None \<and>
         (case exec_expiresAt s of
            None \<Rightarrow> False
          | Some (hs, ms) \<Rightarrow>
              s = hs @ '':'' @ ms \<and> (length hs = 1 \<or> length hs = 2) \<and> length ms = 2 \<and>
              (\<forall>c \<in> set (hs @ ms). is_digit c) \<and>
              expiresAt r = Some (parseInt hs, parseInt ms) \<and>
              0 \<le> parseInt hs \<and> parseInt hs \<le> 99 \<and> 0 \<le> parseInt ms \<and> parseInt ms \<le> 99)"
proof -
  from compile_expiresAt [OF assms] obtain hs ms where
    e: "o_expiresIn opts = None" "exec_expiresAt s = Some (hs, ms)"
       "expiresAt r = Some (parseInt hs, parseInt ms)"
    by blast
  note sh = exec_expiresAt_shape [OF e(2)]
  have "0 \<le> parseInt hs \<and> parseInt hs \<le> 99" using sh by (intro parseInt_bounds) auto
  moreover have "0 \<le> parseInt ms \<and> parseInt ms \<le> 99" using sh by (intro parseInt_bounds) auto
  ultimately show ?thesis using e sh by simp
qed

theorem compile_expiresAt_valid_witness:
  "Policy_compile (Some ((empty_options :: func options)\<lparr> o_expiresAt := Some ''3:00'' \<rparr>)) False
     = Inr (empty_rule\<lparr> expiresAt := Some (3, 0), generateOnReadError := Some True,
              generateIgnoreWriteError := Some True \<rparr>) \<and>
   o_expiresIn ((empty_options :: func options)\<lparr> o_expiresAt := Some ''3:00'' \<rparr>) = None \<and>
   exec_expiresAt ''3:00'' = Some (''3'', ''00'') \<and>
   parseInt ''3'' \<le> 99 \<and> parseInt ''00'' \<le> 99"
proof -
  have c: "Policy_compile (Some ((empty_options :: func options)\<lparr> o_expiresAt := Some ''3:00'' \<rparr>)) False
        = Inr (empty_rule\<lparr> expiresAt := Some (3, 0), generateOnReadError := Some True,
                generateIgnoreWriteError := Some True \<rparr>)"
    by (simp add: Policy_compile_def empty_options_def empty_rule_def no_keys_def schema_def
          assertions_def compile_generate_def is_digit_def parseInt_def)
  have s: "o_expiresAt ((empty_options :: func options)\<lparr> o_expiresAt := Some ''3:00'' \<rparr>) = Some ''3:00''"
    by simp
  have x: "exec_expiresAt ''3:00'' = Some (''3'', ''00'')"
    by (simp add: is_digit_def)
  show ?thesis
    using compile_expiresAt_valid [OF c s] c x by simp
qed

text \<open>
  C8 as stated fails: nothing checks the range of a daily clock. The string
  \<^verbatim>\<open>25:70\<close> compiles, and the rule carries the hour 25 and the minute 70.
\<close>

theorem compile_expiresAt_valid_counterexample:
  "Policy_compile (Some ((empty_options :: func options)\<lparr> o_expiresAt := Some ''25:70'' \<rparr>)) False
     = Inr (empty_rule\<lparr> expiresAt := Some (25, 70), generateOnReadError := Some True,
              generateIgnoreWriteError := Some True \<rparr>) \<and>
   \<not> ((25 :: int) \<le> 23 \<and> (70 :: int) \<le> 59)"
  by (simp add: Policy_compile_def empty_options_def empty_rule_def no_keys_def schema_def
        assertions_def compile_generate_def is_digit_def parseInt_def)

section \<open>Properties of delivery\<close>

lemma respond_entry:
  assumes "pendings p (pendingsId i) = Some ws"
  shows "respond p i err v c rep =
     ((if r_isStale rep \<noteq> None
       then p\<lparr> pendings := (pendings p)(pendingsId i := None),
               stats := (stats p)\<lparr> hits := hits (stats p) + length ws \<rparr> \<rparr>
       else p\<lparr> pendings := (pendings p)(pendingsId i := None) \<rparr>),
      deliver ws err v c rep, None)"
  using assms by (simp add: respond_def deliver_def Let_def)

lemma respond_once_first:
  assumes "pendings p (pendingsId i) = Some ws" and "n \<notin> set (fired p)"
  shows "respond_once n p i err v c rep =
     ((if r_isStale rep \<noteq> None
       then p\<lparr> fired := n # fired p, pendings := (pendings p)(pendingsId i := None),
               stats := (stats p)\<lparr> hits := hits (stats p) + length ws \<rparr> \<rparr>
       else p\<lparr> fired := n # fired p, pendings := (pendings p)(pendingsId i := None) \<rparr>),
      deliver ws err v c rep, None)"
  using assms by (simp add: respond_once_def respond_entry)



text \<open>Nothing that delivers or writes back sets a timer that could resolve a get.\<close>

lemma respond_no_timer: "filter resolving_timer (fst (snd (respond p i err v c rep))) = []"
  by (cases "pendings p (pendingsId i)") (simp_all add: respond_def Let_def filter_empty_conv)

lemma respond_once_no_timer:
  "filter resolving_timer (fst (snd (respond_once n p i err v c rep))) = []"
  by (simp add: respond_once_def respond_no_timer)

lemma finalize_no_timer:
  "filter resolving_timer (fst (snd (finalize n i ge v c rep p err))) = []"
  by (cases c) (simp_all add: finalize_def Let_def respond_once_no_timer)

lemma call_back_no_timer:
  "filter resolving_timer (fst (snd (call_back cb p err))) = []"
  by (cases cb) (simp_all add: finalize_no_timer)

lemma generate_done_no_timer:
  "filter resolving_timer (fst (snd (generate_done la clk n i c rep p ge v t))) = []"
  by (simp add: generate_done_def Let_def Policy_drop_def Policy_set_def call_back_no_timer
        finalize_no_timer)

lemma callGenerateFunc_no_timer:
  "filter resolving_timer
     (fst (snd (Policy__callGenerateFunc la clk p i k c rep n producer))) = []"
  by (cases producer)
     (simp_all add: Policy__callGenerateFunc_def Let_def split_def generate_done_no_timer
        split: option.splits)

lemma generate_catch_no_timer:
  assumes "filter resolving_timer (fst (snd tried)) = []"
  shows "filter resolving_timer (fst (snd (generate_catch n i rep tried))) = []"
  using assms
  by (cases tried; cases "snd (snd tried)")
     (simp_all add: generate_catch_def split_def respond_once_no_timer)

lemma pending_timer_no_timer: "filter resolving_timer (pending_timer p pid) = []"
  by (simp add: pending_timer_def)

text \<open>The parts of \<^verbatim>\<open>_generate\<close> do not look at the count of once-wrappers.\<close>

lemma adjust_ttl_onces: "adjust_ttl (p\<lparr> onces := m \<rparr>) c = adjust_ttl p c"
  by (cases c) (simp_all add: adjust_ttl_def)

lemma fallback_timers_onces:
  "fallback_timers (p\<lparr> onces := m \<rparr>) n i c rep = fallback_timers p n i c rep"
  by (cases c) (simp_all add: fallback_timers_def)

lemma pending_timer_onces: "pending_timer (p\<lparr> onces := m \<rparr>) pid = pending_timer p pid"
  by (simp add: pending_timer_def)

lemma adjust_ttl_Some:
  assumes "staleTimeout (rule p) = Some st" and "ttl cd = Num t"
  shows "adjust_ttl p (Some cd) = Some (cd\<lparr> ttl := Num (t - st) \<rparr>)"
  using assms by (simp add: adjust_ttl_def)

lemma fallback_timers_stale:
  assumes "staleTimeout (rule p) = Some st"
  shows "fallback_timers p n i (Some (cd\<lparr> ttl := Num a \<rparr>)) rep =
     (if 0 < a then [SetTimeout st (StaleFallback n i (cd\<lparr> ttl := Num a \<rparr>) rep)] else [])"
  using assms by (simp add: fallback_timers_def)

text \<open>The effects of \<^verbatim>\<open>_generate\<close>: the fallback timers, then what the guarded block does.\<close>

lemma generate_effects:
  "fst (snd (Policy__generate la clk p i k c rep producer)) =
     fallback_timers p (onces p) i (adjust_ttl p c) rep @
     (if truthy_bool (pendingGenerateCall p (pendingsId i)) then []
      else pending_timer p (pendingsId i) @
           fst (snd (generate_catch (onces p) i rep
             (Policy__callGenerateFunc la clk
                (mark_pending (p\<lparr> onces := Suc (onces p) \<rparr>) (pendingsId i)) i k
                (adjust_ttl p c) rep (onces p) producer))))"
  by (simp add: Policy__generate_def Let_def split_def adjust_ttl_onces fallback_timers_onces
        pending_timer_onces)

section \<open>Properties of resolutions\<close>

lemma resolves_frame:
  assumes "pendings p' = pendings p" and "hits (stats p') = hits (stats p)"
  shows "resolves p i rep p'"
  using assms by (simp add: resolves_def split: option.split)

lemma resolves_trans:
  assumes "resolves p i rep p1" and "resolves p1 i rep p2"
  shows "resolves p i rep p2"
  using assms by (auto simp: resolves_def split: option.splits)

lemma respond_resolves: "resolves p i rep (fst (respond p i e v c rep))"
  by (cases "pendings p (pendingsId i)") (simp_all add: respond_def resolves_def Let_def)

lemma respond_once_resolves: "resolves p i rep (fst (respond_once n p i e v c rep))"
proof (cases "n \<in> set (fired p)")
  case True
  then show ?thesis by (simp add: respond_once_def resolves_frame)
next
  case False
  have "resolves p i rep (p\<lparr> fired := n # fired p \<rparr>)" by (simp add: resolves_frame)
  then show ?thesis
    using False respond_resolves [of "p\<lparr> fired := n # fired p \<rparr>" i rep e v c]
    by (simp add: respond_once_def) (rule resolves_trans)
qed














lemma timer_fired_resolves:
  "resolves p i rep (fst (timer_fired p (StaleFallback n i cd rep)))"
  "resolves p i rep (fst (timer_fired p (GenerateTimeout n i rep)))"
  by (simp_all add: respond_once_resolves)



text \<open>Every function hands on the report and the entry it was given.\<close>

lemma reports_of_simps [simp]:
  "reports_of [] = {}"
  "reports_of (e # es) = set (reports_in e) \<union> reports_of es"
  "reports_of (es @ fs) = reports_of es \<union> reports_of fs"
  by (simp_all add: reports_of_def)

lemma entries_of_simps [simp]:
  "entries_of [] = {}"
  "entries_of (e # es) = set (entries_in e) \<union> entries_of es"
  "entries_of (es @ fs) = entries_of es \<union> entries_of fs"
  by (simp_all add: entries_of_def)

lemma respond_carries:
  "reports_of (fst (snd (respond p i e v c rep))) \<subseteq> {rep}"
  "entries_of (fst (snd (respond p i e v c rep))) \<subseteq> set (entry_list c)"
proof -
  show "reports_of (fst (snd (respond p i e v c rep))) \<subseteq> {rep}"
    by (cases "pendings p (pendingsId i)")
       (auto simp: respond_def reports_of_def Let_def)
  show "entries_of (fst (snd (respond p i e v c rep))) \<subseteq> set (entry_list c)"
    by (cases "pendings p (pendingsId i)")
       (auto simp: respond_def entries_of_def Let_def)
qed

lemma respond_once_carries:
  "reports_of (fst (snd (respond_once n p i e v c rep))) \<subseteq> {rep}"
  "entries_of (fst (snd (respond_once n p i e v c rep))) \<subseteq> set (entry_list c)"
  by (simp_all add: respond_once_def respond_carries)

lemma finalize_carries:
  "reports_of (fst (snd (finalize n i ge v c rep p err))) \<subseteq> {rep}"
  "entries_of (fst (snd (finalize n i ge v c rep p err))) \<subseteq> set (entry_list c)"
proof -
  show "reports_of (fst (snd (finalize n i ge v c rep p err))) \<subseteq> {rep}"
    by (cases c) (simp_all add: finalize_def Let_def respond_once_carries)
  have n: "entries_of (fst (snd (respond_once n p i e v None rep))) = {}" for e v
    using respond_once_carries(2) [of n p i e v None rep] by simp
  have s: "entries_of (fst (snd (respond_once n p i e v (Some cd) rep))) \<subseteq> {cd}" for e v cd
    using respond_once_carries(2) [of n p i e v "Some cd" rep] by simp
  show "entries_of (fst (snd (finalize n i ge v c rep p err))) \<subseteq> set (entry_list c)"
    by (cases c) (simp_all add: finalize_def Let_def n s)
qed

lemma drop_carries:
  "reports_of (fst (snd (Policy_drop p k (Finalize n i ge v c rep)))) \<subseteq> {rep}"
  "entries_of (fst (snd (Policy_drop p k (Finalize n i ge v c rep)))) \<subseteq> set (entry_list c)"
  by (simp_all add: Policy_drop_def finalize_carries)

lemma set_carries:
  "reports_of (fst (snd (Policy_set la clk p k v t (Finalize n i ge v' c rep)))) \<subseteq> {rep}"
  "entries_of (fst (snd (Policy_set la clk p k v t (Finalize n i ge v' c rep)))) \<subseteq> set (entry_list c)"
  by (simp_all add: Policy_set_def Let_def finalize_carries)

lemma generate_done_carries:
  "reports_of (fst (snd (generate_done la clk n i c rep p ge v t))) \<subseteq> {rep}"
  "entries_of (fst (snd (generate_done la clk n i c rep p ge v t))) \<subseteq> set (entry_list c)"
  by (simp_all add: generate_done_def Let_def drop_carries set_carries finalize_carries)

lemma callGenerateFunc_carries:
  "reports_of (fst (snd (Policy__callGenerateFunc la clk p i k c rep n producer))) \<subseteq> {rep}"
  "entries_of (fst (snd (Policy__callGenerateFunc la clk p i k c rep n producer))) \<subseteq> set (entry_list c)"
proof -
  show "reports_of (fst (snd (Policy__callGenerateFunc la clk p i k c rep n producer))) \<subseteq> {rep}"
    by (cases producer)
       (simp_all add: Policy__callGenerateFunc_def Let_def split_def generate_done_carries
          split: option.splits)
  show "entries_of (fst (snd (Policy__callGenerateFunc la clk p i k c rep n producer))) \<subseteq> set (entry_list c)"
    by (cases producer)
       (simp_all add: Policy__callGenerateFunc_def Let_def split_def generate_done_carries
          split: option.splits)
qed

lemma generate_catch_carries:
  assumes "reports_of (fst (snd tried)) \<subseteq> {rep}"
  shows "reports_of (fst (snd (generate_catch n i rep tried))) \<subseteq> {rep}"
  using assms
  by (cases tried; cases "snd (snd tried)")
     (simp_all add: generate_catch_def split_def respond_once_carries)

lemma generate_catch_entries:
  assumes "entries_of (fst (snd tried)) \<subseteq> C"
  shows "entries_of (fst (snd (generate_catch n i rep tried))) \<subseteq> C"
proof -
  have n: "entries_of (fst (snd (respond_once n q i e None None rep))) = {}" for e q
    using respond_once_carries(2) [of n q i e None None rep] by simp
  show ?thesis
    using assms
    by (cases tried; cases "snd (snd tried)") (simp_all add: generate_catch_def split_def n)
qed

lemma fallback_timers_carries:
  "reports_of (fallback_timers p n i c rep) \<subseteq> {rep}"
  "entries_of (fallback_timers p n i c rep) \<subseteq> set (entry_list c)"
proof -
  show "reports_of (fallback_timers p n i c rep) \<subseteq> {rep}"
    by (cases c)
       (simp_all add: fallback_timers_def split: option.splits generateTimeout_t.splits)
  show "entries_of (fallback_timers p n i c rep) \<subseteq> set (entry_list c)"
    by (cases c)
       (simp_all add: fallback_timers_def split: option.splits generateTimeout_t.splits)
qed

lemma pending_timer_carries:
  "reports_of (pending_timer p pid) = {}" "entries_of (pending_timer p pid) = {}"
  by (simp_all add: pending_timer_def)

lemma generate_carries:
  "reports_of (fst (snd (Policy__generate la clk p i k c rep producer))) \<subseteq> {rep}"
  "entries_of (fst (snd (Policy__generate la clk p i k c rep producer))) \<subseteq> set (entry_list (adjust_ttl p c))"
  by (simp_all add: generate_effects fallback_timers_carries pending_timer_carries
        generate_catch_carries generate_catch_entries callGenerateFunc_carries)





text \<open>The call of the producer is the first effect of the \<^verbatim>\<open>try\<close>, and stays.\<close>

lemma callGenerateFunc_head:
  assumes "generateFunc (rule p) \<noteq> None"
  shows "CallGenerateFunc k n i c rep \<in>
           set (fst (snd (Policy__callGenerateFunc la clk p i k c rep n producer)))"
  using assms by (simp add: Policy__callGenerateFunc_def Let_def split_def)

lemma generate_catch_keeps:
  assumes "e \<in> set (fst (snd tried))"
  shows "e \<in> set (fst (snd (generate_catch n i rep tried)))"
  using assms
  by (cases tried; cases "snd (snd tried)") (simp_all add: generate_catch_def split_def)

section \<open>Coalescing of gets\<close>

lemma get_attach:
  assumes "pendings p (pendingsId (key_id k)) = Some ws"
  shows "Policy_get p k f d =
     (p\<lparr> stats := (stats p)\<lparr> gets := gets (stats p) + 1 \<rparr>,
        pendings := (pendings p)(pendingsId (key_id k) \<mapsto> ws @ [waiter_of (k, f, d)]) \<rparr>,
      [], None)"
  using assms by (simp add: Policy_get_def Let_def)

lemma get_first:
  assumes "pendings p (pendingsId (key_id k)) = None"
  shows "Policy_get p k f d =
     (p\<lparr> stats := (stats p)\<lparr> gets := gets (stats p) + 1 \<rparr>,
        pendings := (pendings p)(pendingsId (key_id k) \<mapsto> [Direct f]) \<rparr>,
      [if cache p then CacheGet (segment p) (key_id k) k else NextTickGet (key_id k) k], None)"
  using assms by (simp add: Policy_get_def Policy__get_def Let_def)

lemma get_all_attached:
  assumes "pendings p pid = Some ws"
      and "\<forall>c \<in> set cs. pendingsId (key_id (fst c)) = pid"
  shows "\<exists>p'. get_all p cs = (p', []) \<and> pendings p' pid = Some (ws @ map waiter_of cs)"
  using assms
proof (induction cs arbitrary: p ws)
  case Nil
  then show ?case by simp
next
  case (Cons c cs)
  obtain k f d where c: "c = (k, f, d)" by (cases c) auto
  from Cons.prems c have pid: "pendingsId (key_id k) = pid" by simp
  let ?p1 = "p\<lparr> stats := (stats p)\<lparr> gets := gets (stats p) + 1 \<rparr>,
        pendings := (pendings p)(pid \<mapsto> ws @ [waiter_of (k, f, d)]) \<rparr>"
  have g: "Policy_get p k f d = (?p1, [], None)"
    using get_attach [of p k ws f d] Cons.prems(1) pid by simp
  have "pendings ?p1 pid = Some (ws @ [waiter_of (k, f, d)])" by simp
  moreover have "\<forall>c \<in> set cs. pendingsId (key_id (fst c)) = pid" using Cons.prems(2) by simp
  ultimately obtain p' where p': "get_all ?p1 cs = (p', [])"
      "pendings p' pid = Some ((ws @ [waiter_of (k, f, d)]) @ map waiter_of cs)"
    using Cons.IH [of ?p1 "ws @ [waiter_of (k, f, d)]"] by blast
  show ?case using g p' c by simp
qed

text \<open>
  C1. While the table has an entry for the prefixed id (policy \<open>q\<close>), a call of
  \<^verbatim>\<open>get\<close> for that id only counts itself and appends its callback, and so do any
  number of further calls: no effect at all, the waiters in the order of the calls.
  From a policy without an entry (policy \<open>p\<close>, right after a resolution or at the
  start), the calls \<open>(k, f, d) # cs\<close> for one id have exactly one effect, the lookup
  of the first caller, which is the backend \<^verbatim>\<open>get\<close> when the policy has a backend,
  and all callers wait in order.
\<close>

theorem get_single_flight:
  assumes "pendings q (pendingsId (key_id k)) = Some ws"
      and "pendings p (pendingsId (key_id k)) = None"
      and "\<forall>c \<in> set cs. pendingsId (key_id (fst c)) = pendingsId (key_id k)"
  shows "Policy_get q k f d =
           (q\<lparr> stats := (stats q)\<lparr> gets := gets (stats q) + 1 \<rparr>,
              pendings := (pendings q)(pendingsId (key_id k) \<mapsto>
                            ws @ [if d then Bound f else Direct f]) \<rparr>, [], None) \<and>
         snd (get_all q cs) = [] \<and>
         pendings (fst (get_all q cs)) (pendingsId (key_id k)) = Some (ws @ map waiter_of cs) \<and>
         snd (get_all p ((k, f, d) # cs)) =
           [if cache p then CacheGet (segment p) (key_id k) k else NextTickGet (key_id k) k] \<and>
         length (filter is_lookup (snd (get_all p ((k, f, d) # cs)))) = 1 \<and>
         length (filter is_backend_get (snd (get_all p ((k, f, d) # cs)))) =
           (if cache p then 1 else 0) \<and>
         pendings (fst (get_all p ((k, f, d) # cs))) (pendingsId (key_id k)) =
           Some (Direct f # map waiter_of cs)"
proof -
  let ?pid = "pendingsId (key_id k)"
  let ?p1 = "p\<lparr> stats := (stats p)\<lparr> gets := gets (stats p) + 1 \<rparr>,
        pendings := (pendings p)(?pid \<mapsto> [Direct f]) \<rparr>"
  let ?e = "if cache p then CacheGet (segment p) (key_id k) k else NextTickGet (key_id k) k"
  have a: "Policy_get q k f d =
           (q\<lparr> stats := (stats q)\<lparr> gets := gets (stats q) + 1 \<rparr>,
              pendings := (pendings q)(?pid \<mapsto> ws @ [if d then Bound f else Direct f]) \<rparr>,
            [], None)"
    using get_attach [OF assms(1), of f d] by simp
  obtain q' where q': "get_all q cs = (q', [])" "pendings q' ?pid = Some (ws @ map waiter_of cs)"
    using get_all_attached [OF assms(1) assms(3)] by blast
  have g: "Policy_get p k f d = (?p1, [?e], None)"
    using get_first [OF assms(2)] by simp
  have "pendings ?p1 ?pid = Some [Direct f]" by simp
  then obtain p' where p': "get_all ?p1 cs = (p', [])"
      "pendings p' ?pid = Some ([Direct f] @ map waiter_of cs)"
    using get_all_attached [of ?p1 ?pid "[Direct f]" cs] assms(3) by blast
  have all: "get_all p ((k, f, d) # cs) = (p', [?e])"
    using g p'(1) by simp
  show ?thesis
    unfolding all using a q' p'(2) by simp
qed

theorem get_single_flight_witness:
  "snd (get_all waiting_policy [(Object (Str ''k''), Func 3, False), (key_k, Func 4, True)]) = [] \<and>
   pendings (fst (get_all waiting_policy [(Object (Str ''k''), Func 3, False), (key_k, Func 4, True)]))
       ''+k'' = Some [Direct (Func 1), Bound (Func 2), Direct (Func 3), Bound (Func 4)] \<and>
   snd (get_all stale_policy
          [(key_k, Func 1, False), (Object (Str ''k''), Func 3, False), (key_k, Func 4, True)])
     = [CacheGet ''seg'' (Str ''k'') key_k] \<and>
   pendings (fst (get_all stale_policy
          [(key_k, Func 1, False), (Object (Str ''k''), Func 3, False), (key_k, Func 4, True)]))
       ''+k'' = Some [Direct (Func 1), Direct (Func 3), Bound (Func 4)]"
proof -
  have q: "pendings waiting_policy (pendingsId (key_id key_k)) = Some [Direct (Func 1), Bound (Func 2)]"
    by (simp add: waiting_policy_def key_k_def pendingsId_def)
  have p: "pendings stale_policy (pendingsId (key_id key_k)) = None"
    by (simp add: stale_policy_def)
  have cs: "\<forall>c \<in> set [(Object (Str ''k''), Func 3, False), (key_k, Func 4, True)].
              pendingsId (key_id (fst c)) = pendingsId (key_id key_k)"
    by (simp add: key_k_def)
  have i: "pendingsId (Str ''k'') = ''+k''" "key_id key_k = Str ''k''"
    by (simp_all add: key_k_def pendingsId_def)
  have c: "cache stale_policy" "segment stale_policy = ''seg''"
    by (simp_all add: stale_policy_def)
  show ?thesis
    using get_single_flight [OF q p cs, of "Func 1" False] by (simp add: i c)
qed

section \<open>drop\<close>

text \<open>
  C9, with the guard for a missing backend in front. For a policy without a backend,
  \<^verbatim>\<open>drop\<close> calls the callback with no error, whatever the key, and nothing else
  happens. For a policy with a backend: when the id taken from the key is falsy
  (\<^verbatim>\<open>undefined\<close>, \<^verbatim>\<open>null\<close>, the empty string or 0, as the key itself or as
  its \<^verbatim>\<open>id\<close> field), the callback is called at once with the error
  \<^verbatim>\<open>Invalid key\<close> and the backend is not called; otherwise the only effect is the
  backend \<^verbatim>\<open>drop\<close>. When the backend calls back, an error is counted in
  \<^verbatim>\<open>stats.errors\<close> and handed to the callback.
\<close>

theorem drop_invalid_key:
  "Policy_drop p k (or_ignore f) =
     (if \<not> cache p
      then (p, (case f of Some g \<Rightarrow> [Call g None] | None \<Rightarrow> []), None)
      else if truthy (key_id k)
      then (p, [CacheDrop (segment p) (key_id k) (or_ignore f)], None)
      else (p, (case f of Some g \<Rightarrow> [Call g (Some (Error ''Invalid key''))]
                | None \<Rightarrow> []), None)) \<and>
   drop_done (or_ignore f) p err =
     ((if err \<noteq> None
       then p\<lparr> stats := (stats p)\<lparr> errors := errors (stats p) + 1 \<rparr> \<rparr> else p),
      (case f of Some g \<Rightarrow> [Call g err] | None \<Rightarrow> []), None) \<and>
   truthy (key_id k) =
     (key_id k \<noteq> Undefined \<and> key_id k \<noteq> Null \<and> key_id k \<noteq> Str [] \<and>
      key_id k \<noteq> Number 0)"
proof -
  have "truthy (key_id k) =
          (key_id k \<noteq> Undefined \<and> key_id k \<noteq> Null \<and> key_id k \<noteq> Str [] \<and>
           key_id k \<noteq> Number 0)"
    by (cases "key_id k") simp_all
  then show ?thesis
    by (cases f) (simp_all add: Policy_drop_def drop_done_def count_error_def)
qed

theorem drop_invalid_key_witness:
  "Policy_drop waiting_policy (Object (Str [])) (or_ignore (Some (Func 9))) =
     (waiting_policy, [Call (Func 9) (Some (Error ''Invalid key''))], None) \<and>
   Policy_drop waiting_policy key_k (or_ignore (Some (Func 9))) =
     (waiting_policy, [CacheDrop ''seg'' (Str ''k'') (Caller (Func 9))], None) \<and>
   Policy_drop bare_policy key_k (or_ignore (Some (Func 9))) =
     (bare_policy, [Call (Func 9) None], None)"
proof -
  have c: "cache waiting_policy" "segment waiting_policy = ''seg''" "\<not> cache bare_policy"
    by (simp_all add: waiting_policy_def stale_policy_def bare_policy_def)
  show ?thesis
    using drop_invalid_key [of waiting_policy "Object (Str [])" "Some (Func 9)"]
          drop_invalid_key [of waiting_policy key_k "Some (Func 9)"]
          drop_invalid_key [of bare_policy key_k "Some (Func 9)"]
    by (simp add: c key_k_def)
qed

text \<open>
  C9 as stated fails in two ways. For a policy without a backend, \<^verbatim>\<open>drop\<close>
  returns through \<^verbatim>\<open>callback(null)\<close> before it looks at the key, so a \<^verbatim>\<open>null\<close>
  key gets no error. For a policy with a backend, the test \<^verbatim>\<open>if (!id)\<close> refuses
  every falsy id: the keys 0 and \<^verbatim>\<open>undefined\<close>, which are neither \<^verbatim>\<open>null\<close>
  nor empty, get the error and are not passed through to the backend.
\<close>

theorem drop_invalid_key_counterexample:
  "Policy_drop bare_policy (Plain Null) (or_ignore (Some (Func 9))) =
     (bare_policy, [Call (Func 9) None], None) \<and>
   Policy_drop waiting_policy (Plain (Number 0)) (or_ignore (Some (Func 9))) =
     (waiting_policy, [Call (Func 9) (Some (Error ''Invalid key''))], None) \<and>
   Policy_drop waiting_policy (Plain Undefined) (or_ignore (Some (Func 9))) =
     (waiting_policy, [Call (Func 9) (Some (Error ''Invalid key''))], None)"
  by (simp add: Policy_drop_def bare_policy_def waiting_policy_def stale_policy_def)

section \<open>The callback of the producer\<close>

lemma finalize_completion:
  assumes "pendings p (pendingsId i) = Some ws" and "n \<notin> set (fired p)"
  shows "fst (snd (finalize n i ge v c rep p err)) = finalized_completion p ws ge v c rep err"
  using assms
  by (cases "dropOnError (rule p)"; cases "generateIgnoreWriteError (rule p)"; cases c; cases ge)
     (auto simp: finalize_def finalized_completion_def finalized_error_def Let_def
        respond_once_first)

lemma count_error_frame:
  "pendings (count_error p err) = pendings p" "fired (count_error p err) = fired p"
  "rule (count_error p err) = rule p"
  by (simp_all add: count_error_def)

lemma finalized_error_count_error:
  "finalized_error (count_error p e) ge err = finalized_error p ge err"
  by (cases ge) (simp_all add: finalized_error_def count_error_frame)

lemma finalized_completion_count_error:
  "finalized_completion (count_error p e) ws ge v c rep err = finalized_completion p ws ge v c rep err"
  by (cases c)
     (simp_all add: finalized_completion_def finalized_error_count_error count_error_frame)

text \<open>
  C3. The callback of the producer clears the pending mark and then calls
  \<^verbatim>\<open>drop(id, finalize)\<close> if (\<^verbatim>\<open>generateError\<close> and \<^verbatim>\<open>dropOnError\<close>) or
  \<^verbatim>\<open>ttl === 0\<close>, else \<^verbatim>\<open>set(id, value, ttl, finalize)\<close> if there is no
  \<^verbatim>\<open>generateError\<close>, else \<^verbatim>\<open>finalize()\<close>. Whichever way \<^verbatim>\<open>finalize\<close> is
  reached (from the callback of the backend's drop or set, which also counts an error,
  or directly), if it is the first resolution of the get whose waiters are \<open>ws\<close>, its
  effects are the completion described above, delivered to every waiter in order.
\<close>

theorem producer_callback_disposition:
  assumes "pendings p (pendingsId i) = Some ws" and "n \<notin> set (fired p)"
  shows "generate_done localAt clock n i c rep p generateError v t =
           (let p1 = p\<lparr> pendingGenerateCall := (pendingGenerateCall p)(pendingsId i := None) \<rparr>
            in if (generateError \<noteq> None \<and> dropOnError (rule p) = Some True) \<or> t = Some 0
               then Policy_drop p1 (Plain i) (Finalize n i generateError v c rep)
               else if generateError = None
               then Policy_set localAt clock p1 (Plain i) v t (Finalize n i generateError v c rep)
               else finalize n i generateError v c rep p1 None) \<and>
         fst (snd (drop_done (Finalize n i generateError v c rep) p err)) =
           finalized_completion p ws generateError v c rep err \<and>
         fst (snd (set_done (Finalize n i generateError v c rep) p err)) =
           finalized_completion p ws generateError v c rep err \<and>
         fst (snd (finalize n i generateError v c rep p None)) =
           finalized_completion p ws generateError v c rep None"
proof -
  have d: "generate_done localAt clock n i c rep p generateError v t =
           (let p1 = p\<lparr> pendingGenerateCall := (pendingGenerateCall p)(pendingsId i := None) \<rparr>
            in if (generateError \<noteq> None \<and> dropOnError (rule p) = Some True) \<or> t = Some 0
               then Policy_drop p1 (Plain i) (Finalize n i generateError v c rep)
               else if generateError = None
               then Policy_set localAt clock p1 (Plain i) v t (Finalize n i generateError v c rep)
               else finalize n i generateError v c rep p1 None)"
    by (cases "dropOnError (rule p)") (auto simp: generate_done_def Let_def)
  have e: "pendings (count_error p err) (pendingsId i) = Some ws"
          "n \<notin> set (fired (count_error p err))"
    using assms by (simp_all add: count_error_frame)
  have f: "fst (snd (finalize n i generateError v c rep (count_error p err) err)) =
           finalized_completion p ws generateError v c rep err"
    using finalize_completion [OF e] by (simp add: finalized_completion_count_error)
  show ?thesis
    using d f finalize_completion [OF assms, of generateError v c rep None]
    by (simp add: drop_done_def set_done_def)
qed

theorem producer_callback_disposition_witness:
  "generate_done utcAt 1003000 0 (Str ''k'') (Some stale_50) report_150 waiting_policy
       (Some (Error ''boom'')) None None
     = Policy_drop waiting_policy (Plain (Str ''k''))
         (Finalize 0 (Str ''k'') (Some (Error ''boom'')) None (Some stale_50) report_150) \<and>
   fst (snd (set_done (Finalize 0 (Str ''k'') None (Some ''new'') (Some stale_50) report_150)
               waiting_policy (Some (Error ''write''))))
     = [NextTick (Direct (Func 1)) None (Some ''new'') None report_150,
        NextTick (Bound (Func 2)) None (Some ''new'') None report_150]"
proof -
  have q: "pendings waiting_policy (pendingsId (Str ''k'')) = Some [Direct (Func 1), Bound (Func 2)]"
    by (simp add: waiting_policy_def pendingsId_def)
  have n: "0 \<notin> set (fired waiting_policy)"
    by (simp add: waiting_policy_def stale_policy_def)
  have r: "dropOnError (rule waiting_policy) = Some True"
          "generateIgnoreWriteError (rule waiting_policy) = Some True"
    by (simp_all add: waiting_policy_def stale_policy_def stale_rule_def)
  have u: "waiting_policy\<lparr> pendingGenerateCall :=
              (pendingGenerateCall waiting_policy)(pendingsId (Str ''k'') := None) \<rparr> = waiting_policy"
    by (simp add: waiting_policy_def stale_policy_def)
  show ?thesis
    using producer_callback_disposition [OF q n, where localAt = utcAt and clock = 1003000
            and c = "Some stale_50" and rep = report_150 and generateError = "Some (Error ''boom'')"
            and v = None and t = None]
          producer_callback_disposition [OF q n, where localAt = utcAt and clock = 1003000
            and c = "Some stale_50" and rep = report_150 and generateError = None
            and v = "Some ''new''" and t = None and err = "Some (Error ''write'')"]
    by (simp add: r u finalized_completion_def finalized_error_def deliver_def)
qed

section \<open>The stale path of generation\<close>

lemma timer_fired_stale:
  assumes "pendings q (pendingsId i) = Some ws" and "n \<notin> set (fired q)"
  shows "fst (snd (timer_fired q (StaleFallback n i cd rep))) =
           deliver ws None (Some (item cd)) (Some cd) rep"
  using assms by (simp add: respond_once_first)

text \<open>
  C4. On the stale path, with \<^verbatim>\<open>cached.ttl = t\<close> and \<^verbatim>\<open>staleTimeout = st\<close>, whatever
  the producer does: among the effects of \<^verbatim>\<open>_generate\<close> the timers whose closure
  resolves the get are exactly the one fallback after \<open>st\<close> ms when \<open>t - st > 0\<close>, and
  none otherwise (no generation timeout is set on this path); all other effects are the
  timer of the pending mark and what the call of the producer does, and they are absent
  when a generate call is marked pending. The fallback, when it fires as the first
  resolution, delivers the stale item and entry, without error, to all waiters in order.
\<close>

theorem stale_fallback_scheduling:
  assumes "staleTimeout (rule p) = Some st" and "ttl cd = Num t"
      and "pendings q (pendingsId i) = Some ws" and "n \<notin> set (fired q)"
  shows "filter resolving_timer
           (fst (snd (Policy__generate localAt clock p i k (Some cd) rep producer))) =
           (if 0 < t - st
            then [SetTimeout st (StaleFallback (onces p) i (cd\<lparr> ttl := Num (t - st) \<rparr>) rep)]
            else []) \<and>
         fst (snd (Policy__generate localAt clock p i k (Some cd) rep producer)) =
           (if 0 < t - st
            then [SetTimeout st (StaleFallback (onces p) i (cd\<lparr> ttl := Num (t - st) \<rparr>) rep)]
            else []) @
           (if truthy_bool (pendingGenerateCall p (pendingsId i)) then []
            else pending_timer p (pendingsId i) @
                 fst (snd (generate_catch (onces p) i rep
                   (Policy__callGenerateFunc localAt clock
                      (mark_pending (p\<lparr> onces := Suc (onces p) \<rparr>) (pendingsId i)) i k
                      (Some (cd\<lparr> ttl := Num (t - st) \<rparr>)) rep (onces p) producer)))) \<and>
         fst (snd (timer_fired q (StaleFallback n i (cd\<lparr> ttl := Num (t - st) \<rparr>) rep))) =
           deliver ws None (Some (item cd)) (Some (cd\<lparr> ttl := Num (t - st) \<rparr>)) rep"
proof -
  note a = adjust_ttl_Some [OF assms(1,2)]
  note f = fallback_timers_stale [OF assms(1)]
  have "filter resolving_timer
           (fst (snd (Policy__generate localAt clock p i k (Some cd) rep producer))) =
           (if 0 < t - st
            then [SetTimeout st (StaleFallback (onces p) i (cd\<lparr> ttl := Num (t - st) \<rparr>) rep)]
            else [])"
    by (simp add: generate_effects a f pending_timer_no_timer generate_catch_no_timer
          callGenerateFunc_no_timer)
  moreover have "fst (snd (Policy__generate localAt clock p i k (Some cd) rep producer)) =
           (if 0 < t - st
            then [SetTimeout st (StaleFallback (onces p) i (cd\<lparr> ttl := Num (t - st) \<rparr>) rep)]
            else []) @
           (if truthy_bool (pendingGenerateCall p (pendingsId i)) then []
            else pending_timer p (pendingsId i) @
                 fst (snd (generate_catch (onces p) i rep
                   (Policy__callGenerateFunc localAt clock
                      (mark_pending (p\<lparr> onces := Suc (onces p) \<rparr>) (pendingsId i)) i k
                      (Some (cd\<lparr> ttl := Num (t - st) \<rparr>)) rep (onces p) producer))))"
    by (simp add: generate_effects a f)
  moreover have "fst (snd (timer_fired q (StaleFallback n i (cd\<lparr> ttl := Num (t - st) \<rparr>) rep))) =
           deliver ws None (Some (item cd)) (Some (cd\<lparr> ttl := Num (t - st) \<rparr>)) rep"
    using timer_fired_stale [OF assms(3,4), of "cd\<lparr> ttl := Num (t - st) \<rparr>" rep] by simp
  ultimately show ?thesis by blast
qed

theorem stale_fallback_scheduling_witness:
  "filter resolving_timer
     (fst (snd (Policy__generate utcAt 1000000 waiting_policy (Str ''k'') key_k
                  (Some (entry_150\<lparr> isStale := Some True \<rparr>)) report_150 (Returns None))))
     = [SetTimeout 100 (StaleFallback 0 (Str ''k'') stale_50 report_150)] \<and>
   filter resolving_timer
     (fst (snd (Policy__generate utcAt 1000110 waiting_policy (Str ''k'') key_k
                  (Some (entry_40\<lparr> isStale := Some True \<rparr>)) report_150 (Returns None))))
     = [] \<and>
   fst (snd (timer_fired waiting_policy (StaleFallback 0 (Str ''k'') stale_50 report_150)))
     = [NextTick (Direct (Func 1)) None (Some ''v'') (Some stale_50) report_150,
        NextTick (Bound (Func 2)) None (Some ''v'') (Some stale_50) report_150]"
proof -
  have st: "staleTimeout (rule waiting_policy) = Some 100"
    by (simp add: waiting_policy_def stale_policy_def stale_rule_def)
  have t1: "ttl (entry_150\<lparr> isStale := Some True \<rparr>) = Num 150"
   and t2: "ttl (entry_40\<lparr> isStale := Some True \<rparr>) = Num 40"
    by (simp_all add: entry_150_def entry_40_def)
  have q: "pendings waiting_policy (pendingsId (Str ''k'')) = Some [Direct (Func 1), Bound (Func 2)]"
    by (simp add: waiting_policy_def pendingsId_def)
  have n: "0 \<notin> set (fired waiting_policy)" "onces waiting_policy = 0"
    by (simp_all add: waiting_policy_def stale_policy_def)
  note T1 = stale_fallback_scheduling [OF st t1 q n(1), where localAt = utcAt
            and clock = 1000000 and k = key_k and rep = report_150 and producer = "Returns None"]
  note T2 = stale_fallback_scheduling [OF st t2 q n(1), where localAt = utcAt
            and clock = 1000110 and k = key_k and rep = report_150 and producer = "Returns None"]
  show ?thesis
    using T1 [THEN conjunct1] T2 [THEN conjunct1] T1 [THEN conjunct2, THEN conjunct2]
    by (simp add: n(2) deliver_def stale_50_def entry_150_def entry_40_def)
qed

lemma get_done_stale:
  assumes "generateFunc (rule p) \<noteq> None"
      and "err = None \<or> generateOnReadError (rule p) = Some True"
      and "stale_now (rule p) clock cd"
  shows "get_done localAt clock elapsed i k p err (Some cd) producer =
           Policy__generate localAt clock
             ((count_error p err)\<lparr> stats := (stats (count_error p err))
                 \<lparr> stales := stales (stats (count_error p err)) + 1 \<rparr> \<rparr>)
             i k (Some (cd\<lparr> isStale := Some True \<rparr>))
             (make_report (rule p) clock elapsed err (Some cd)) producer"
  using assms
  by (auto simp: get_done_def Let_def mark_stale_def count_error_frame)

lemma callGenerateFunc_async:
  assumes "generateFunc (rule p) \<noteq> None"
  shows "Policy__callGenerateFunc localAt clock p i k c rep n (Returns None) =
           (p, [CallGenerateFunc k n i c rep], None)"
  using assms by (simp add: Policy__callGenerateFunc_def)

lemma mark_pending_rule: "rule (mark_pending p pid) = rule p"
  by (simp add: mark_pending_def Let_def)

section \<open>Hits\<close>



section \<open>The ttl of a stale entry\<close>

lemma finalize_keeps_stale:
  assumes "pendings q (pendingsId i) = Some ws" and "n \<notin> set (fired q)"
      and "finalized_error q generateError werr \<noteq> None"
      and "dropOnError (rule q) \<noteq> Some True"
  shows "fst (snd (finalize n i generateError v (Some cd) rep q werr)) =
           deliver ws (finalized_error q generateError werr) (Some (item cd)) (Some cd) rep"
  using assms(3,4)
  by (simp add: finalize_completion [OF assms(1,2)] finalized_completion_def)

text \<open>
  C10. A get whose backend entry \<open>cd\<close> has \<^verbatim>\<open>ttl = t\<close> and is stale enters
  \<^verbatim>\<open>_generate\<close> (the rule has a producer and \<^verbatim>\<open>staleTimeout = st\<close>). The report
  keeps \<^verbatim>\<open>ttl = t\<close>. Whatever the producer does, also when it calls back or throws
  before it returns, every entry that an effect of the get carries (in the fallback
  timer, set exactly when \<open>t - st > 0\<close>, in the closure given to the producer, in
  \<^verbatim>\<open>finalize\<close> given to the backend, in a delivery) is the entry with
  \<^verbatim>\<open>ttl = t - st\<close>, every report is the report of the get, and when one of these
  closures runs later it hands on the same entry and report. So the waiters that receive
  the stale entry, from the fallback timer or from a finalization whose error (of the
  producer, or of the write or drop when write errors are not ignored) meets
  \<^verbatim>\<open>dropOnError\<close> false, receive it with \<^verbatim>\<open>ttl = t - st\<close>, next to the report
  with \<^verbatim>\<open>ttl = t\<close>.
\<close>

theorem stale_ttl_overwritten:
  assumes "generateFunc (rule p) \<noteq> None"
      and "err = None \<or> generateOnReadError (rule p) = Some True"
      and "stale_now (rule p) clock cd"
      and "staleTimeout (rule p) = Some st" and "ttl cd = Num t"
      and "pendings q (pendingsId i) = Some ws" and "n \<notin> set (fired q)"
      and "finalized_error q generateError werr \<noteq> None"
      and "dropOnError (rule q) \<noteq> Some True"
  shows "(let rep = make_report (rule p) clock elapsed err (Some cd);
              cd' = cd\<lparr> isStale := Some True, ttl := Num (t - st) \<rparr>
          in r_ttl rep = Some (Num t) \<and> ttl cd' = Num (t - st) \<and>
             fst (snd (get_done localAt clock elapsed i k p err (Some cd) (Returns None))) =
               (if 0 < t - st then [SetTimeout st (StaleFallback (onces p) i cd' rep)] else []) @
               (if truthy_bool (pendingGenerateCall p (pendingsId i)) then []
                else pending_timer p (pendingsId i) @
                     [CallGenerateFunc k (onces p) i (Some cd') rep]) \<and>
             entries_of (fst (snd (get_done localAt clock elapsed i k p err (Some cd) producer)))
               \<subseteq> {cd'} \<and>
             reports_of (fst (snd (get_done localAt clock elapsed i k p err (Some cd) producer)))
               \<subseteq> {rep} \<and>
             filter resolving_timer
               (fst (snd (get_done localAt clock elapsed i k p err (Some cd) producer))) =
               (if 0 < t - st then [SetTimeout st (StaleFallback (onces p) i cd' rep)] else []) \<and>
             (\<not> truthy_bool (pendingGenerateCall p (pendingsId i)) \<longrightarrow>
                CallGenerateFunc k (onces p) i (Some cd') rep \<in>
                  set (fst (snd (get_done localAt clock elapsed i k p err (Some cd) producer)))) \<and>
             (\<forall>ev \<in> {TimerFired (StaleFallback m i cd' rep),
                      GenerateDone m i (Some cd') rep ge v' t',
                      SetDone (Finalize m i ge v' (Some cd') rep) e,
                      DropDone (Finalize m i ge v' (Some cd') rep) e}.
                entries_of (fst (snd (step localAt clock' s ev))) \<subseteq> {cd'} \<and>
                reports_of (fst (snd (step localAt clock' s ev))) \<subseteq> {rep}) \<and>
             fst (snd (timer_fired q (StaleFallback n i cd' rep))) =
               deliver ws None (Some (item cd)) (Some cd') rep \<and>
             fst (snd (finalize n i generateError v (Some cd') rep q werr)) =
               deliver ws (finalized_error q generateError werr) (Some (item cd)) (Some cd') rep)"
proof -
  let ?rep = "make_report (rule p) clock elapsed err (Some cd)"
  let ?cd = "cd\<lparr> isStale := Some True, ttl := Num (t - st) \<rparr>"
  let ?p2 = "(count_error p err)\<lparr> stats := (stats (count_error p err))
                 \<lparr> stales := stales (stats (count_error p err)) + 1 \<rparr> \<rparr>"
  let ?pm = "mark_pending (?p2\<lparr> onces := Suc (onces p) \<rparr>) (pendingsId i)"
  let ?G = "\<lambda>producer. fst (snd (get_done localAt clock elapsed i k p err (Some cd) producer))"
  have r: "r_ttl ?rep = Some (Num t)"
    using assms(5) by (simp add: make_report_def)
  have p2: "rule ?p2 = rule p" "onces ?p2 = onces p"
           "pendingGenerateCall ?p2 = pendingGenerateCall p"
    by (simp_all add: count_error_def)
  have st: "staleTimeout (rule ?p2) = Some st"
    using assms(4) by (simp add: count_error_frame)
  have tt: "ttl (cd\<lparr> isStale := Some True \<rparr>) = Num t"
    using assms(5) by simp
  have a: "adjust_ttl ?p2 (Some (cd\<lparr> isStale := Some True \<rparr>)) = Some ?cd"
    using adjust_ttl_Some [OF st tt] by simp
  have f: "fallback_timers ?p2 (onces p) i (Some ?cd) ?rep =
             (if 0 < t - st then [SetTimeout st (StaleFallback (onces p) i ?cd ?rep)] else [])"
    using fallback_timers_stale [OF st, where n = "onces p" and i = i
            and cd = "cd\<lparr> isStale := Some True \<rparr>" and a = "t - st" and rep = ?rep]
    by simp
  have pt: "pending_timer ?p2 (pendingsId i) = pending_timer p (pendingsId i)"
    by (simp add: pending_timer_def count_error_frame)
  have gf: "generateFunc (rule ?pm) \<noteq> None"
    using assms(1) by (simp add: mark_pending_rule count_error_frame)
  have G: "?G producer =
             (if 0 < t - st then [SetTimeout st (StaleFallback (onces p) i ?cd ?rep)] else []) @
             (if truthy_bool (pendingGenerateCall p (pendingsId i)) then []
              else pending_timer p (pendingsId i) @
                   fst (snd (generate_catch (onces p) i ?rep
                     (Policy__callGenerateFunc localAt clock ?pm i k (Some ?cd) ?rep (onces p)
                        producer))))" for producer
    unfolding get_done_stale [OF assms(1,2,3)] generate_effects a p2 f pt by simp
  have cg: "fst (snd (generate_catch (onces p) i ?rep
             (Policy__callGenerateFunc localAt clock ?pm i k (Some ?cd) ?rep (onces p)
                (Returns None)))) =
            [CallGenerateFunc k (onces p) i (Some ?cd) ?rep]"
    using assms(1)
    by (simp add: callGenerateFunc_async mark_pending_rule count_error_frame generate_catch_def)
  have g: "?G (Returns None) =
               (if 0 < t - st then [SetTimeout st (StaleFallback (onces p) i ?cd ?rep)] else []) @
               (if truthy_bool (pendingGenerateCall p (pendingsId i)) then []
                else pending_timer p (pendingsId i) @
                     [CallGenerateFunc k (onces p) i (Some ?cd) ?rep])"
    unfolding G cg by simp
  have ge: "entries_of (?G producer) \<subseteq> {?cd}"
    using generate_carries(2) [of localAt clock ?p2 i k "Some (cd\<lparr> isStale := Some True \<rparr>)"
            ?rep producer]
    unfolding get_done_stale [OF assms(1,2,3)] a by simp
  have gr: "reports_of (?G producer) \<subseteq> {?rep}"
    unfolding get_done_stale [OF assms(1,2,3)] by (rule generate_carries(1))
  have gt: "filter resolving_timer (?G producer) =
              (if 0 < t - st then [SetTimeout st (StaleFallback (onces p) i ?cd ?rep)] else [])"
    unfolding G
    by (simp add: pending_timer_no_timer generate_catch_no_timer callGenerateFunc_no_timer)
  have gc: "CallGenerateFunc k (onces p) i (Some ?cd) ?rep \<in> set (?G producer)"
    if "\<not> truthy_bool (pendingGenerateCall p (pendingsId i))"
    unfolding G using that generate_catch_keeps [OF callGenerateFunc_head [OF gf]] by simp
  have ec: "entries_of (fst (snd (finalize m i ge v' (Some ?cd) ?rep s' e))) \<subseteq> {?cd}" for s'
    using finalize_carries(2) [of m i ge v' "Some ?cd" ?rep s' e] by simp
  have ed: "entries_of (fst (snd (generate_done localAt clock' m i (Some ?cd) ?rep s ge v' t')))
              \<subseteq> {?cd}"
    using generate_done_carries(2) [of localAt clock' m i "Some ?cd" ?rep s ge v' t'] by simp
  have et: "entries_of (fst (snd (respond_once m s i None (Some (item ?cd)) (Some ?cd) ?rep)))
              \<subseteq> {?cd}"
    using respond_once_carries(2) [of m s i None "Some (item ?cd)" "Some ?cd" ?rep] by simp
  have ev: "\<forall>ev \<in> {TimerFired (StaleFallback m i ?cd ?rep),
                      GenerateDone m i (Some ?cd) ?rep ge v' t',
                      SetDone (Finalize m i ge v' (Some ?cd) ?rep) e,
                      DropDone (Finalize m i ge v' (Some ?cd) ?rep) e}.
                entries_of (fst (snd (step localAt clock' s ev))) \<subseteq> {?cd} \<and>
                reports_of (fst (snd (step localAt clock' s ev))) \<subseteq> {?rep}"
    using ec ed et
    by (simp add: set_done_def drop_done_def finalize_carries generate_done_carries
          respond_once_carries)
  have tf: "fst (snd (timer_fired q (StaleFallback n i ?cd ?rep))) =
               deliver ws None (Some (item cd)) (Some ?cd) ?rep"
    using timer_fired_stale [OF assms(6,7), of ?cd ?rep] by simp
  have fk: "fst (snd (finalize n i generateError v (Some ?cd) ?rep q werr)) =
               deliver ws (finalized_error q generateError werr) (Some (item cd)) (Some ?cd) ?rep"
    using finalize_keeps_stale [OF assms(6,7,8,9), of v ?cd ?rep] by simp
  have tc: "ttl ?cd = Num (t - st)" by simp
  show ?thesis
    unfolding Let_def using r tc g ge gr gt gc ev tf fk by blast
qed

theorem stale_ttl_overwritten_witness:
  "fst (snd (get_done utcAt 1000000 1 (Str ''k'') key_k waiting_policy None (Some entry_150)
               (Returns None)))
     = [SetTimeout 100 (StaleFallback 0 (Str ''k'') stale_50 report_150),
        SetTimeout 5000 (ClearPendingGenerate ''+k''),
        CallGenerateFunc key_k 0 (Str ''k'') (Some stale_50) report_150] \<and>
   r_ttl report_150 = Some (Num 150) \<and> ttl stale_50 = Num 50 \<and>
   fst (snd (timer_fired keeping_policy (StaleFallback 0 (Str ''k'') stale_50 report_150)))
     = [NextTick (Direct (Func 1)) None (Some ''v'') (Some stale_50) report_150,
        NextTick (Bound (Func 2)) None (Some ''v'') (Some stale_50) report_150] \<and>
   fst (snd (finalize 0 (Str ''k'') (Some (Error ''boom'')) None (Some stale_50) report_150
               keeping_policy None))
     = [NextTick (Direct (Func 1)) (Some (Error ''boom'')) (Some ''v'') (Some stale_50) report_150,
        NextTick (Bound (Func 2)) (Some (Error ''boom'')) (Some ''v'') (Some stale_50) report_150] \<and>
   fst (snd (finalize 0 (Str ''k'') None (Some ''new'') (Some stale_50) report_150
               surfacing_policy (Some (Error ''write''))))
     = [NextTick (Direct (Func 1)) (Some (Error ''write'')) (Some ''v'') (Some stale_50) report_150,
        NextTick (Bound (Func 2)) (Some (Error ''write'')) (Some ''v'') (Some stale_50) report_150]"
proof -
  have r: "rule waiting_policy = stale_rule"
          "rule keeping_policy = stale_rule\<lparr> dropOnError := Some False \<rparr>"
          "rule surfacing_policy = stale_rule\<lparr> dropOnError := Some False,
             generateIgnoreWriteError := Some False \<rparr>"
    by (simp_all add: surfacing_policy_def keeping_policy_def waiting_policy_def stale_policy_def)
  have h1: "generateFunc (rule waiting_policy) \<noteq> None"
   and h4: "staleTimeout (rule waiting_policy) = Some 100"
   and h9: "dropOnError (rule keeping_policy) \<noteq> Some True"
   and h9': "dropOnError (rule surfacing_policy) \<noteq> Some True"
    by (simp_all add: r stale_rule_def)
  have h2: "(None :: jserror option) = None \<or> generateOnReadError (rule waiting_policy) = Some True"
    by simp
  have h3: "stale_now (rule waiting_policy) 1000000 entry_150"
    by (simp add: r stale_rule_def stale_now_def entry_150_def)
  have h5: "ttl entry_150 = Num 150"
    by (simp add: entry_150_def)
  have h6: "pendings keeping_policy (pendingsId (Str ''k'')) = Some [Direct (Func 1), Bound (Func 2)]"
   and h6': "pendings surfacing_policy (pendingsId (Str ''k'')) = Some [Direct (Func 1), Bound (Func 2)]"
    by (simp_all add: surfacing_policy_def keeping_policy_def waiting_policy_def pendingsId_def)
  have h7: "0 \<notin> set (fired keeping_policy)"
   and h7': "0 \<notin> set (fired surfacing_policy)"
    by (simp_all add: surfacing_policy_def keeping_policy_def waiting_policy_def stale_policy_def)
  have fe: "finalized_error keeping_policy (Some (Error ''boom'')) None = Some (Error ''boom'')"
           "finalized_error surfacing_policy None (Some (Error ''write'')) = Some (Error ''write'')"
    by (simp_all add: finalized_error_def r stale_rule_def)
  have h8: "finalized_error keeping_policy (Some (Error ''boom'')) None \<noteq> None"
   and h8': "finalized_error surfacing_policy None (Some (Error ''write'')) \<noteq> None"
    by (simp_all add: fe)
  have rep: "make_report (rule waiting_policy) 1000000 1 None (Some entry_150) = report_150"
    using h3 by (simp add: make_report_def report_150_def entry_150_def)
  have cd: "entry_150\<lparr> isStale := Some True, ttl := Num (150 - 100) \<rparr> = stale_50"
    by (simp add: entry_150_def stale_50_def)
  have w: "onces waiting_policy = 0" "pendingGenerateCall waiting_policy (pendingsId (Str ''k'')) = None"
          "pending_timer waiting_policy (pendingsId (Str ''k'')) = [SetTimeout 5000 (ClearPendingGenerate ''+k'')]"
          "item entry_150 = ''v''"
    by (simp_all add: waiting_policy_def stale_policy_def stale_rule_def pending_timer_def
          pendingsId_def entry_150_def)
  note T = stale_ttl_overwritten [OF h1 h2 h3 h4 h5 h6 h7 h8 h9, where localAt = utcAt
            and elapsed = 1 and k = key_k and v = None, unfolded Let_def rep cd w fe]
  note T' = stale_ttl_overwritten [OF h1 h2 h3 h4 h5 h6' h7' h8' h9', where localAt = utcAt
            and elapsed = 1 and k = key_k and v = "Some ''new''", unfolded Let_def rep cd w fe]
  have a: "fst (snd (get_done utcAt 1000000 1 (Str ''k'') key_k waiting_policy None (Some entry_150)
               (Returns None)))
     = [SetTimeout 100 (StaleFallback 0 (Str ''k'') stale_50 report_150),
        SetTimeout 5000 (ClearPendingGenerate ''+k''),
        CallGenerateFunc key_k 0 (Str ''k'') (Some stale_50) report_150]"
    using T [THEN conjunct2, THEN conjunct2, THEN conjunct1] by simp
  have b: "r_ttl report_150 = Some (Num 150)"
    using T [THEN conjunct1] .
  have c: "ttl stale_50 = Num 50"
    using T [THEN conjunct2, THEN conjunct1] by simp
  have last2: "A \<and> B" if "X1 \<and> X2 \<and> X3 \<and> X4 \<and> X5 \<and> X6 \<and> X7 \<and> X8 \<and> A \<and> B"
    for X1 X2 X3 X4 X5 X6 X7 X8 A B
    using that by blast
  have d: "fst (snd (timer_fired keeping_policy (StaleFallback 0 (Str ''k'') stale_50 report_150)))
     = [NextTick (Direct (Func 1)) None (Some ''v'') (Some stale_50) report_150,
        NextTick (Bound (Func 2)) None (Some ''v'') (Some stale_50) report_150]"
    using last2 [OF T, THEN conjunct1] by (simp add: deliver_def)
  have e: "fst (snd (finalize 0 (Str ''k'') (Some (Error ''boom'')) None (Some stale_50) report_150
               keeping_policy None))
     = [NextTick (Direct (Func 1)) (Some (Error ''boom'')) (Some ''v'') (Some stale_50) report_150,
        NextTick (Bound (Func 2)) (Some (Error ''boom'')) (Some ''v'') (Some stale_50) report_150]"
    using last2 [OF T, THEN conjunct2] by (simp add: deliver_def)
  have f: "fst (snd (finalize 0 (Str ''k'') None (Some ''new'') (Some stale_50) report_150
               surfacing_policy (Some (Error ''write''))))
     = [NextTick (Direct (Func 1)) (Some (Error ''write'')) (Some ''v'') (Some stale_50) report_150,
        NextTick (Bound (Func 2)) (Some (Error ''write'')) (Some ''v'') (Some stale_50) report_150]"
    using last2 [OF T', THEN conjunct2] by (simp add: deliver_def)
  show ?thesis
    using a b c d e f by blast
qed

section \<open>A get that is never resolved\<close>

lemma stale_policy_made:
  "Policy (Some stale_options) (Some ''seg'') None = Inr stale_policy"
  by (simp add: Policy_def Policy_compile_def stale_options_def empty_options_def
        empty_rule_def no_keys_def schema_def assertions_def compile_generate_def
        stale_policy_def stale_rule_def no_stats_def)

text \<open>
  C2 says that every waiter receives exactly one completion. The once-wrapper of a get
  does make its first resolution the only one (\<open>respond_once_first\<close>,
  \<open>respond_once_again\<close>), but a get can be left without any resolution. In the run
  \<open>stale_run\<close> of the stale policy each event is a call of a caller or the running of a
  closure handed out before, and the effects of the events are, in order: the backend
  get; the fallback timer, the timer of the pending mark and the call of the producer;
  the delivery of the stale value to the first caller; the backend get of the second
  caller; nothing (the entry has 40 ms to live, less than \<^verbatim>\<open>staleTimeout\<close>, so no
  fallback is set, and the producer is marked pending, so it is not called); the write
  of the value the producer made; nothing; nothing; nothing. No closure is left that
  could resolve the second get: the one delivery of the run went to the first caller,
  and the second caller and the third are still in the table.
\<close>

theorem stale_get_never_resolved:
  "fst (snd (run utcAt stale_policy stale_run)) =
     [[CacheGet ''seg'' (Str ''k'') key_k],
      [SetTimeout 100 (StaleFallback 0 (Str ''k'') stale_50 report_150),
       SetTimeout 5000 (ClearPendingGenerate ''+k''),
       CallGenerateFunc key_k 0 (Str ''k'') (Some stale_50) report_150],
      [NextTick (Direct (Func 1)) None (Some ''v'') (Some stale_50) report_150],
      [CacheGet ''seg'' (Str ''k'') key_k],
      [],
      [CacheSet ''seg'' (Str ''k'') (Some ''new'') 1000
         (Finalize 0 (Str ''k'') None (Some ''new'') (Some stale_50) report_150)],
      [], [], []] \<and>
   filter is_delivery (concat (fst (snd (run utcAt stale_policy stale_run)))) =
     [NextTick (Direct (Func 1)) None (Some ''v'') (Some stale_50) report_150] \<and>
   snd (snd (run utcAt stale_policy stale_run)) = None \<and>
   pendings (fst (run utcAt stale_policy stale_run)) ''+k'' =
     Some [Direct (Func 2), Direct (Func 3)]"
  by code_simp

end
